theory Spec2Isabelle
  imports Main "HOL-Library.Sublist"
begin

section \<open>Python values, exceptions and the upstream network\<close>

text \<open>
  Python strings are modelled as \<open>string\<close>, read as the UTF-8 bytes of the text. A value
  decoded from a JSON body (\<open>response.json()\<close>) is a \<open>pyval\<close>; a Python \<open>dict\<close> with string
  keys is an association list in insertion order, looked up with \<open>map_of\<close>. A float is
  carried by its \<open>repr\<close> and never computed with.
\<close>

datatype pyval =
    PNone
  | PBool bool
  | PInt int
  | PFloat string
  | PStr string
  | PList "pyval list"
  | PDict "(string \<times> pyval) list"

type_synonym pydict = "(string \<times> pyval) list"

text \<open>
  The exceptions the modelled functions raise themselves; \<open>KeyError\<close> carries the key.
\<close>

datatype exn = RuntimeError string | ValueError string | KeyError string

text \<open>
  What one \<open>client.get(url)\<close> followed by \<open>response.raise_for_status()\<close> and
  \<open>response.json()\<close> can do. The string of a failure is \<open>str(e)\<close> of the exception.
\<close>

datatype response =
    Transport_error string  \<comment> \<open>\<open>client.get\<close> raised: no response received\<close>
  | Status_error string     \<comment> \<open>response received, \<open>raise_for_status\<close> raised\<close>
  | Body_not_json string    \<comment> \<open>status accepted, \<open>response.json()\<close> raised\<close>
  | Body_json pyval         \<comment> \<open>status accepted, the body decodes to this value\<close>

text \<open>
  The environment: the answer of the network to the \<open>n\<close>-th request of the process (so
  an endpoint may answer differently over time) and the clock read after \<open>n\<close> requests.
  The trace is the list of URLs requested so far, oldest first. Calls are modelled one
  at a time, each running to its end; the logger calls of the gateway functions, which
  no result depends on, are left out.
\<close>

record env =
  http_get :: "nat \<Rightarrow> string \<Rightarrow> response"
  now_iso :: "nat \<Rightarrow> string"

type_synonym trace = "string list"

definition client_get :: "env \<Rightarrow> trace \<Rightarrow> string \<Rightarrow> response \<times> trace" where
  "client_get e tr url = (http_get e (length tr) url, tr @ [url])"

text \<open>\<open>response.raise_for_status()\<close>: the accepted response, or the exception's message.\<close>

fun raise_for_status :: "response \<Rightarrow> string + response" where
  "raise_for_status (Transport_error m) = Inl m"
| "raise_for_status (Status_error m) = Inl m"
| "raise_for_status r = Inr r"

text \<open>\<open>response.json()\<close> on a response that passed \<open>raise_for_status\<close>.\<close>

fun response_json :: "response \<Rightarrow> string + pyval" where
  "response_json (Body_json v) = Inr v"
| "response_json (Body_not_json m) = Inl m"
| "response_json (Transport_error m) = Inl m"
| "response_json (Status_error m) = Inl m"

definition apostrophe :: char where
  "apostrophe = CHR 0x27"

text \<open>
  \<open>str(KeyError(key))\<close> is the \<open>repr\<close> of the key; the keys used here are plain
  identifiers, whose \<open>repr\<close> is the key between apostrophes.
\<close>

definition key_error_message :: "string \<Rightarrow> string" where
  "key_error_message key = apostrophe # key @ [apostrophe]"

text \<open>\<open>d[key]\<close> on a dict: the value, or the message of the \<open>KeyError\<close>.\<close>

definition subscript :: "pydict \<Rightarrow> string \<Rightarrow> string + pyval" where
  "subscript d key = (case map_of d key of None \<Rightarrow> Inl (key_error_message key) | Some v \<Rightarrow> Inr v)"

text \<open>
  \<open>data["translation"]\<close> on a decoded body: a \<open>KeyError\<close> on a dict without the key, a
  \<open>TypeError\<close> on a value that is not a dict (messages of CPython 3.11).
\<close>

fun subscript_translation :: "pyval \<Rightarrow> string + pyval" where
  "subscript_translation (PDict kvs) = subscript kvs ''translation''"
| "subscript_translation (PList _) = Inl ''list indices must be integers or slices, not str''"
| "subscript_translation (PStr _) =
     Inl (''string indices must be integers, not '' @ apostrophe # ''str'' @ [apostrophe])"
| "subscript_translation PNone =
     Inl (apostrophe # ''NoneType'' @ apostrophe # '' object is not subscriptable'')"
| "subscript_translation (PBool _) =
     Inl (apostrophe # ''bool'' @ apostrophe # '' object is not subscriptable'')"
| "subscript_translation (PInt _) =
     Inl (apostrophe # ''int'' @ apostrophe # '' object is not subscriptable'')"
| "subscript_translation (PFloat _) =
     Inl (apostrophe # ''float'' @ apostrophe # '' object is not subscriptable'')"

subsection \<open>\<open>urllib.parse.quote\<close>\<close>

text \<open>
  \<open>quote(text)\<close> with the default \<open>safe='/'\<close>: the UTF-8 bytes of the text, each byte
  outside letters, digits and \<open>_.-~/\<close> replaced by \<open>%XX\<close> in upper-case hexadecimal.
  A \<open>str\<close> that has no UTF-8 encoding (a lone surrogate), on which \<open>quote\<close> raises, is not
  a value of the model.
\<close>

definition always_safe :: "char list" where
  "always_safe =
     ''ABCDEFGHIJKLMNOPQRSTUVWXYZabcdefghijklmnopqrstuvwxyz0123456789_.-~''"

definition hex_digit :: "nat \<Rightarrow> char" where
  "hex_digit n = ''0123456789ABCDEF'' ! (n mod 16)"

definition quote_byte :: "char \<Rightarrow> string" where
  "quote_byte c =
     (if c \<in> set always_safe \<or> c = CHR ''/'' then [c]
      else [CHR ''%'', hex_digit (of_char c div 16), hex_digit (of_char c mod 16)])"

definition quote :: "string \<Rightarrow> string" where
  "quote text = concat (map quote_byte text)"

subsection \<open>Error messages of the failover loops\<close>

definition newline :: char where
  "newline = CHR 0x0A"

text \<open>\<open>"\n".join(errors)\<close>\<close>

fun join_lines :: "string list \<Rightarrow> string" where
  "join_lines [] = []"
| "join_lines [x] = x"
| "join_lines (x # y # ys) = x @ newline # join_lines (y # ys)"

definition primary_error :: "string \<Rightarrow> string" where
  "primary_error m = ''Primary API error: '' @ m"

definition alternative_error :: "string \<Rightarrow> string \<Rightarrow> string" where
  "alternative_error alt_api_url m = ''Alternative API '' @ alt_api_url @ '' error: '' @ m"

definition all_failed :: "string list \<Rightarrow> exn" where
  "all_failed errors = RuntimeError (''All Lingva API endpoints failed: '' @ join_lines errors)"

definition translate_url :: "string \<Rightarrow> string \<Rightarrow> string \<Rightarrow> string \<Rightarrow> string" where
  "translate_url api_url source_lang target_lang encoded_text =
     api_url @ ''/'' @ source_lang @ ''/'' @ target_lang @ ''/'' @ encoded_text"

definition languages_url :: "string \<Rightarrow> string" where
  "languages_url api_url = api_url @ ''/languages''"

section \<open>\<open>services/lingva_service.py\<close>: class \<open>LingvaService\<close>\<close>

record LingvaService =
  primary_api_url :: string
  api_alternatives :: "string list"

text \<open>
  \<open>__init__\<close>: \<open>primary_api_url or os.getenv("LINGVA_API_URL", default)\<close> and
  \<open>api_alternatives or [...]\<close>. \<open>None\<close> and the empty string (the empty list) are falsy.
  \<open>getenv\<close> is the value of the environment variable, if set.
\<close>

definition default_api_url :: string where
  "default_api_url = ''https://lingva.garudalinux.org/api/v1''"

definition default_alternatives :: "string list" where
  "default_alternatives =
     [''https://lingva.garudalinux.org/api/v1'',
      ''https://lingva.pussthecat.org/api/v1'',
      ''https://translate.plausibility.cloud/api/v1'',
      ''https://translate.dr460nf1r3.org/api/v1'']"

definition LingvaService_init ::
  "string option \<Rightarrow> string option \<Rightarrow> string list option \<Rightarrow> LingvaService" where
  "LingvaService_init getenv primary alternatives =
     \<lparr> primary_api_url =
         (case primary of
            Some u \<Rightarrow> if u \<noteq> [] then u
                      else (case getenv of Some v \<Rightarrow> v | None \<Rightarrow> default_api_url)
          | None \<Rightarrow> (case getenv of Some v \<Rightarrow> v | None \<Rightarrow> default_api_url)),
       api_alternatives =
         (case alternatives of
            Some (a # as) \<Rightarrow> a # as
          | _ \<Rightarrow> default_alternatives) \<rparr>"

subsection \<open>\<open>LingvaService.translate_text\<close>\<close>

text \<open>
  The loop over \<open>self.api_alternatives\<close>. In this method the assignment
  \<open>self.primary_api_url = alt_api_url\<close> stands between \<open>data = response.json()\<close> and the
  \<open>return\<close> whose dict evaluates \<open>data["translation"]\<close>, inside the \<open>try\<close>.
\<close>

fun LingvaService_translate_alternatives ::
  "env \<Rightarrow> string \<Rightarrow> string \<Rightarrow> string \<Rightarrow> string list \<Rightarrow> LingvaService \<Rightarrow> string list \<Rightarrow> trace
     \<Rightarrow> (exn + pydict) \<times> LingvaService \<times> trace" where
  "LingvaService_translate_alternatives e text source_lang target_lang [] self errors tr =
     (Inl (all_failed errors), self, tr)"
| "LingvaService_translate_alternatives e text source_lang target_lang (alt_api_url # rest)
       self errors tr =
     (if alt_api_url = primary_api_url self
      then LingvaService_translate_alternatives e text source_lang target_lang rest self errors tr
      else
        (case client_get e tr (translate_url alt_api_url source_lang target_lang (quote text)) of
           (resp, tr') \<Rightarrow>
             (case raise_for_status resp of
                Inl m \<Rightarrow>
                  LingvaService_translate_alternatives e text source_lang target_lang rest self
                    (errors @ [alternative_error alt_api_url m]) tr'
              | Inr ok \<Rightarrow>
                  (case response_json ok of
                     Inl m \<Rightarrow>
                       LingvaService_translate_alternatives e text source_lang target_lang rest
                         self (errors @ [alternative_error alt_api_url m]) tr'
                   | Inr data \<Rightarrow>
                       (let self' = self\<lparr>primary_api_url := alt_api_url\<rparr> in
                        case subscript_translation data of
                          Inl m \<Rightarrow>
                            LingvaService_translate_alternatives e text source_lang target_lang
                              rest self' (errors @ [alternative_error alt_api_url m]) tr'
                        | Inr translation \<Rightarrow>
                            (Inr [(''original_text'', PStr text),
                                  (''translated_text'', translation),
                                  (''source_language'', PStr source_lang),
                                  (''target_language'', PStr target_lang),
                                  (''timestamp'', PStr (now_iso e (length tr'))),
                                  (''api_used'', PStr alt_api_url)],
                             self', tr'))))))"

definition LingvaService_translate_text ::
  "env \<Rightarrow> string \<Rightarrow> string \<Rightarrow> string \<Rightarrow> LingvaService \<Rightarrow> trace
     \<Rightarrow> (exn + pydict) \<times> LingvaService \<times> trace" where
  "LingvaService_translate_text e text source_lang target_lang self tr =
     (case client_get e tr
             (translate_url (primary_api_url self) source_lang target_lang (quote text)) of
        (resp, tr') \<Rightarrow>
          (case raise_for_status resp of
             Inl m \<Rightarrow>
               LingvaService_translate_alternatives e text source_lang target_lang
                 (api_alternatives self) self [primary_error m] tr'
           | Inr ok \<Rightarrow>
               (case response_json ok of
                  Inl m \<Rightarrow>
                    LingvaService_translate_alternatives e text source_lang target_lang
                      (api_alternatives self) self [primary_error m] tr'
                | Inr data \<Rightarrow>
                    (case subscript_translation data of
                       Inl m \<Rightarrow>
                         LingvaService_translate_alternatives e text source_lang target_lang
                           (api_alternatives self) self [primary_error m] tr'
                     | Inr translation \<Rightarrow>
                         (Inr [(''original_text'', PStr text),
                               (''translated_text'', translation),
                               (''source_language'', PStr source_lang),
                               (''target_language'', PStr target_lang),
                               (''timestamp'', PStr (now_iso e (length tr')))],
                          self, tr')))))"

subsection \<open>\<open>LingvaService.get_available_languages\<close>\<close>

text \<open>
  The method has no path that raises: each upstream call sits in a \<open>try\<close> that catches
  \<open>Exception\<close>, and the last statement returns a literal. The local list \<open>errors\<close> is
  only written to the log; the model returns its final value beside the result. In the
  loop the assignment to \<open>self.primary_api_url\<close> stands before \<open>return response.json()\<close>.
\<close>

definition LingvaService_default_languages :: pyval where
  "LingvaService_default_languages =
     PList [PDict [(''code'', PStr ''auto''), (''name'', PStr ''Detect Language'')],
            PDict [(''code'', PStr ''en''), (''name'', PStr ''English'')],
            PDict [(''code'', PStr ''zh''), (''name'', PStr ''Chinese'')]]"

fun LingvaService_languages_alternatives ::
  "env \<Rightarrow> string list \<Rightarrow> LingvaService \<Rightarrow> string list \<Rightarrow> trace
     \<Rightarrow> (pyval \<times> string list) \<times> LingvaService \<times> trace" where
  "LingvaService_languages_alternatives e [] self errors tr =
     ((LingvaService_default_languages, errors), self, tr)"
| "LingvaService_languages_alternatives e (alt_api_url # rest) self errors tr =
     (if alt_api_url = primary_api_url self
      then LingvaService_languages_alternatives e rest self errors tr
      else
        (case client_get e tr (languages_url alt_api_url) of
           (resp, tr') \<Rightarrow>
             (case raise_for_status resp of
                Inl m \<Rightarrow>
                  LingvaService_languages_alternatives e rest self
                    (errors @ [alternative_error alt_api_url m]) tr'
              | Inr ok \<Rightarrow>
                  (let self' = self\<lparr>primary_api_url := alt_api_url\<rparr> in
                   case response_json ok of
                     Inl m \<Rightarrow>
                       LingvaService_languages_alternatives e rest self'
                         (errors @ [alternative_error alt_api_url m]) tr'
                   | Inr languages \<Rightarrow> ((languages, errors), self', tr')))))"

definition LingvaService_get_available_languages ::
  "env \<Rightarrow> LingvaService \<Rightarrow> trace \<Rightarrow> (pyval \<times> string list) \<times> LingvaService \<times> trace" where
  "LingvaService_get_available_languages e self tr =
     (case client_get e tr (languages_url (primary_api_url self)) of
        (resp, tr') \<Rightarrow>
          (case raise_for_status resp of
             Inl m \<Rightarrow>
               LingvaService_languages_alternatives e (api_alternatives self) self
                 [primary_error m] tr'
           | Inr ok \<Rightarrow>
               (case response_json ok of
                  Inl m \<Rightarrow>
                    LingvaService_languages_alternatives e (api_alternatives self) self
                      [primary_error m] tr'
                | Inr languages \<Rightarrow> ((languages, []), self, tr'))))"

section \<open>\<open>translate_server.py\<close>: module-level gateway\<close>

text \<open>The two module globals the functions read; \<open>LINGVA_API_URL\<close> is declared \<open>global\<close>.\<close>

record globals =
  LINGVA_API_URL :: string
  LINGVA_API_ALTERNATIVES :: "string list"

definition module_globals :: "string option \<Rightarrow> globals" where
  "module_globals getenv =
     \<lparr> LINGVA_API_URL = (case getenv of Some v \<Rightarrow> v | None \<Rightarrow> default_api_url),
       LINGVA_API_ALTERNATIVES = default_alternatives \<rparr>"

subsection \<open>\<open>get_available_languages\<close>\<close>

definition default_languages :: pyval where
  "default_languages =
     PList [PDict [(''code'', PStr ''auto''), (''name'', PStr ''Detect Language'')],
            PDict [(''code'', PStr ''en''), (''name'', PStr ''English'')],
            PDict [(''code'', PStr ''zh''), (''name'', PStr ''Chinese'')],
            PDict [(''code'', PStr ''es''), (''name'', PStr ''Spanish'')],
            PDict [(''code'', PStr ''fr''), (''name'', PStr ''French'')],
            PDict [(''code'', PStr ''de''), (''name'', PStr ''German'')],
            PDict [(''code'', PStr ''ja''), (''name'', PStr ''Japanese'')],
            PDict [(''code'', PStr ''ko''), (''name'', PStr ''Korean'')],
            PDict [(''code'', PStr ''ru''), (''name'', PStr ''Russian'')]]"

fun languages_alternatives ::
  "env \<Rightarrow> string list \<Rightarrow> globals \<Rightarrow> string list \<Rightarrow> trace
     \<Rightarrow> (pyval \<times> string list) \<times> globals \<times> trace" where
  "languages_alternatives e [] g errors tr = ((default_languages, errors), g, tr)"
| "languages_alternatives e (alt_api_url # rest) g errors tr =
     (if alt_api_url = LINGVA_API_URL g
      then languages_alternatives e rest g errors tr
      else
        (case client_get e tr (languages_url alt_api_url) of
           (resp, tr') \<Rightarrow>
             (case raise_for_status resp of
                Inl m \<Rightarrow>
                  languages_alternatives e rest g (errors @ [alternative_error alt_api_url m]) tr'
              | Inr ok \<Rightarrow>
                  (let g' = g\<lparr>LINGVA_API_URL := alt_api_url\<rparr> in
                   case response_json ok of
                     Inl m \<Rightarrow>
                       languages_alternatives e rest g'
                         (errors @ [alternative_error alt_api_url m]) tr'
                   | Inr languages \<Rightarrow> ((languages, errors), g', tr')))))"

definition get_available_languages ::
  "env \<Rightarrow> globals \<Rightarrow> trace \<Rightarrow> (pyval \<times> string list) \<times> globals \<times> trace" where
  "get_available_languages e g tr =
     (case client_get e tr (languages_url (LINGVA_API_URL g)) of
        (resp, tr') \<Rightarrow>
          (case raise_for_status resp of
             Inl m \<Rightarrow>
               languages_alternatives e (LINGVA_API_ALTERNATIVES g) g [primary_error m] tr'
           | Inr ok \<Rightarrow>
               (case response_json ok of
                  Inl m \<Rightarrow>
                    languages_alternatives e (LINGVA_API_ALTERNATIVES g) g [primary_error m] tr'
                | Inr languages \<Rightarrow> ((languages, []), g, tr'))))"

subsection \<open>\<open>translate_text\<close>\<close>

text \<open>
  Here \<open>translation_info\<close>, whose dict evaluates \<open>data["translation"]\<close>, is built before
  the assignment to \<open>LINGVA_API_URL\<close>.
\<close>

fun translate_alternatives ::
  "env \<Rightarrow> string \<Rightarrow> string \<Rightarrow> string \<Rightarrow> string list \<Rightarrow> globals \<Rightarrow> string list \<Rightarrow> trace
     \<Rightarrow> (exn + pydict) \<times> globals \<times> trace" where
  "translate_alternatives e text source_lang target_lang [] g errors tr =
     (Inl (all_failed errors), g, tr)"
| "translate_alternatives e text source_lang target_lang (alt_api_url # rest) g errors tr =
     (if alt_api_url = LINGVA_API_URL g
      then translate_alternatives e text source_lang target_lang rest g errors tr
      else
        (case client_get e tr (translate_url alt_api_url source_lang target_lang (quote text)) of
           (resp, tr') \<Rightarrow>
             (case raise_for_status resp of
                Inl m \<Rightarrow>
                  translate_alternatives e text source_lang target_lang rest g
                    (errors @ [alternative_error alt_api_url m]) tr'
              | Inr ok \<Rightarrow>
                  (case response_json ok of
                     Inl m \<Rightarrow>
                       translate_alternatives e text source_lang target_lang rest g
                         (errors @ [alternative_error alt_api_url m]) tr'
                   | Inr data \<Rightarrow>
                       (case subscript_translation data of
                          Inl m \<Rightarrow>
                            translate_alternatives e text source_lang target_lang rest g
                              (errors @ [alternative_error alt_api_url m]) tr'
                        | Inr translation \<Rightarrow>
                            (Inr [(''original_text'', PStr text),
                                  (''translated_text'', translation),
                                  (''source_language'', PStr source_lang),
                                  (''target_language'', PStr target_lang),
                                  (''timestamp'', PStr (now_iso e (length tr'))),
                                  (''api_used'', PStr alt_api_url)],
                             g\<lparr>LINGVA_API_URL := alt_api_url\<rparr>, tr'))))))"

definition translate_text ::
  "env \<Rightarrow> string \<Rightarrow> string \<Rightarrow> string \<Rightarrow> globals \<Rightarrow> trace \<Rightarrow> (exn + pydict) \<times> globals \<times> trace" where
  "translate_text e text source_lang target_lang g tr =
     (case client_get e tr
             (translate_url (LINGVA_API_URL g) source_lang target_lang (quote text)) of
        (resp, tr') \<Rightarrow>
          (case raise_for_status resp of
             Inl m \<Rightarrow>
               translate_alternatives e text source_lang target_lang
                 (LINGVA_API_ALTERNATIVES g) g [primary_error m] tr'
           | Inr ok \<Rightarrow>
               (case response_json ok of
                  Inl m \<Rightarrow>
                    translate_alternatives e text source_lang target_lang
                      (LINGVA_API_ALTERNATIVES g) g [primary_error m] tr'
                | Inr data \<Rightarrow>
                    (case subscript_translation data of
                       Inl m \<Rightarrow>
                         translate_alternatives e text source_lang target_lang
                           (LINGVA_API_ALTERNATIVES g) g [primary_error m] tr'
                     | Inr translation \<Rightarrow>
                         (Inr [(''original_text'', PStr text),
                               (''translated_text'', translation),
                               (''source_language'', PStr source_lang),
                               (''target_language'', PStr target_lang),
                               (''timestamp'', PStr (now_iso e (length tr')))],
                          g, tr')))))"

subsection \<open>\<open>list_tools\<close> and \<open>call_tool\<close>\<close>

record property_schema =
  property_name :: string
  property_type :: string
  property_description :: string
  property_default :: "string option"

record Tool =
  name :: string
  description :: string
  properties :: "property_schema list"
  required :: "string list"

definition list_tools :: "Tool list" where
  "list_tools =
     [\<lparr> name = ''translate_text'',
        description = ''Translate text between languages using Lingva Translate'',
        properties =
          [\<lparr> property_name = ''text'', property_type = ''string'',
              property_description = ''Text to translate'', property_default = None \<rparr>,
           \<lparr> property_name = ''source_lang'', property_type = ''string'',
              property_description =
                ''Source language code (e.g., '' @ apostrophe # ''en'' @ apostrophe # '', ''
                 @ apostrophe # ''zh'' @ apostrophe # '', '' @ apostrophe # ''auto''
                 @ apostrophe # '' for auto-detection)'',
              property_default = Some ''auto'' \<rparr>,
           \<lparr> property_name = ''target_lang'', property_type = ''string'',
              property_description =
                ''Target language code (e.g., '' @ apostrophe # ''en'' @ apostrophe # '', ''
                 @ apostrophe # ''zh'' @ apostrophe # '')'',
              property_default = Some ''zh'' \<rparr>],
        required = [''text'', ''target_lang''] \<rparr>]"

text \<open>
  \<open>arguments: Any\<close>: a dict, or anything else. The values of the dict are taken to be
  strings, as the tool's input schema and the signature of \<open>translate_text\<close> declare.
\<close>

datatype arguments = Not_a_dict | Dict "(string \<times> string) list"

record TextContent =
  content_type :: string
  content_text :: string

text \<open>
  An f-string field \<open>{v}\<close> is \<open>str(v)\<close>: the string itself for a \<open>str\<close>; for the other
  values Python's \<open>str\<close> is the parameter \<open>py_str\<close>.
\<close>

definition format_value :: "(pyval \<Rightarrow> string) \<Rightarrow> pyval \<Rightarrow> string" where
  "format_value py_str v = (case v of PStr s \<Rightarrow> s | _ \<Rightarrow> py_str v)"

definition label_original :: string where
  "label_original = [CHR 0xE5, CHR 0x8E, CHR 0x9F, CHR 0xE6, CHR 0x96, CHR 0x87]"

definition label_translated :: string where
  "label_translated = [CHR 0xE8, CHR 0xAF, CHR 0x91, CHR 0xE6, CHR 0x96, CHR 0x87]"

definition label_api_used :: string where
  "label_api_used =
     [CHR 0xE4, CHR 0xBD, CHR 0xBF, CHR 0xE7, CHR 0x94, CHR 0xA8, CHR 0xE7, CHR 0x9A, CHR 0x84]
     @ '' API: ''"

definition label_time :: string where
  "label_time =
     [CHR 0xE7, CHR 0xBF, CHR 0xBB, CHR 0xE8, CHR 0xAF, CHR 0x91, CHR 0xE6, CHR 0x97, CHR 0xB6,
      CHR 0xE9, CHR 0x97, CHR 0xB4] @ '': ''"

text \<open>
  The text \<open>call_tool\<close> builds from the result, reading its keys in the order of the
  source; a missing key raises \<open>KeyError\<close>, here the left value.
\<close>

definition response_text :: "(pyval \<Rightarrow> string) \<Rightarrow> pydict \<Rightarrow> string + string" where
  "response_text py_str result =
     (case subscript result ''source_language'' of Inl m \<Rightarrow> Inl m | Inr source_language \<Rightarrow>
      case subscript result ''original_text'' of Inl m \<Rightarrow> Inl m | Inr original_text \<Rightarrow>
      case subscript result ''target_language'' of Inl m \<Rightarrow> Inl m | Inr target_language \<Rightarrow>
      case subscript result ''translated_text'' of Inl m \<Rightarrow> Inl m | Inr translated_text \<Rightarrow>
      case subscript result ''timestamp'' of Inl m \<Rightarrow> Inl m | Inr timestamp \<Rightarrow>
        Inr (label_original @ '' ('' @ format_value py_str source_language @ ''): ''
               @ format_value py_str original_text @ [newline, newline]
             @ label_translated @ '' ('' @ format_value py_str target_language @ ''): ''
               @ format_value py_str translated_text @ [newline]
             @ (case map_of result ''api_used'' of
                  Some api_used \<Rightarrow> label_api_used @ format_value py_str api_used @ [newline]
                | None \<Rightarrow> [])
             @ label_time @ format_value py_str timestamp))"

text \<open>\<open>str(e)\<close> of an exception built from one message.\<close>

fun str_exn :: "exn \<Rightarrow> string" where
  "str_exn (RuntimeError m) = m"
| "str_exn (ValueError m) = m"
| "str_exn (KeyError key) = key_error_message key"

text \<open>\<open>ValueError("Invalid arguments: 'text' and 'target_lang' are required")\<close>\<close>

definition invalid_translate_arguments :: exn where
  "invalid_translate_arguments =
     ValueError (''Invalid arguments: '' @ apostrophe # ''text'' @ apostrophe # '' and ''
        @ apostrophe # ''target_lang'' @ apostrophe # '' are required'')"

definition call_tool ::
  "env \<Rightarrow> (pyval \<Rightarrow> string) \<Rightarrow> string \<Rightarrow> arguments \<Rightarrow> globals \<Rightarrow> trace
     \<Rightarrow> (exn + TextContent list) \<times> globals \<times> trace" where
  "call_tool e py_str tool_name args g tr =
     (if tool_name \<noteq> ''translate_text''
      then (Inl (ValueError (''Unknown tool: '' @ tool_name)), g, tr)
      else
        (case args of
           Not_a_dict \<Rightarrow>
             (Inl invalid_translate_arguments, g, tr)
         | Dict kvs \<Rightarrow>
             (case (map_of kvs ''text'', map_of kvs ''target_lang'') of
                (Some text, Some target_lang) \<Rightarrow>
                  (let source_lang =
                         (case map_of kvs ''source_lang'' of Some s \<Rightarrow> s | None \<Rightarrow> ''auto'')
                   in case translate_text e text source_lang target_lang g tr of
                        (Inr result, g', tr') \<Rightarrow>
                          (case response_text py_str result of
                             Inr built \<Rightarrow>
                               (Inr [\<lparr> content_type = ''text'',
                                        content_text = built \<rparr>], g', tr')
                           | Inl m \<Rightarrow>
                               (Inl (RuntimeError (''Translation API error: '' @ m)), g', tr'))
                      | (Inl ex, g', tr') \<Rightarrow>
                          (Inl (RuntimeError (''Translation API error: '' @ str_exn ex)),
                           g', tr'))
              | _ \<Rightarrow>
                  (Inl invalid_translate_arguments, g, tr))))"

section \<open>\<open>server_test.py\<close>: the DeepSeek server\<close>

text \<open>
  The upstream of \<open>query_deepseek\<close>: the answer to the \<open>n\<close>-th call for a model and a
  prompt is an exception raised inside the \<open>try\<close> (its \<open>str\<close>), or the three fields the
  function reads from the completion, taken to be strings. The trace lists the
  (model, prompt) calls made. The dict the function returns has string values only.
\<close>

record completion =
  completion_model :: string
  completion_content :: string
  completion_finish_reason :: string

record deepseek_env =
  chat_completions_create :: "nat \<Rightarrow> string \<Rightarrow> string \<Rightarrow> string + completion"
  deepseek_now_iso :: "nat \<Rightarrow> string"

type_synonym deepseek_trace = "(string \<times> string) list"

definition DEFAULT_MODEL :: string where
  "DEFAULT_MODEL = ''deepseek-chat''"

definition query_deepseek ::
  "deepseek_env \<Rightarrow> string \<Rightarrow> string \<Rightarrow> deepseek_trace
     \<Rightarrow> (exn + (string \<times> string) list) \<times> deepseek_trace" where
  "query_deepseek d prompt model tr =
     (case chat_completions_create d (length tr) model prompt of
        Inl m \<Rightarrow> (Inl (RuntimeError (''DeepSeek API error: '' @ m)), tr @ [(model, prompt)])
      | Inr c \<Rightarrow>
          (Inr [(''model'', completion_model c),
                (''response'', completion_content c),
                (''finish_reason'', completion_finish_reason c),
                (''timestamp'', deepseek_now_iso d (Suc (length tr)))],
           tr @ [(model, prompt)]))"

definition deepseek_list_tools :: "Tool list" where
  "deepseek_list_tools =
     [\<lparr> name = ''ask_deepseek'',
        description = ''Ask a question to DeepSeek AI'',
        properties =
          [\<lparr> property_name = ''prompt'', property_type = ''string'',
              property_description = ''The question or prompt to send to DeepSeek'',
              property_default = None \<rparr>,
           \<lparr> property_name = ''model'', property_type = ''string'',
              property_description = ''DeepSeek model to use (optional)'',
              property_default = Some DEFAULT_MODEL \<rparr>],
        required = [''prompt''] \<rparr>]"

text \<open>
  \<open>query_deepseek\<close> raises \<open>RuntimeError\<close> only, which the handler
  \<open>except httpx.HTTPError\<close> of this \<open>call_tool\<close> does not catch: it propagates as it is,
  and so would the \<open>KeyError\<close> of \<open>result["response"]\<close>.
\<close>

text \<open>\<open>ValueError("Invalid arguments: 'prompt' is required")\<close>\<close>

definition invalid_deepseek_arguments :: exn where
  "invalid_deepseek_arguments =
     ValueError (''Invalid arguments: '' @ apostrophe # ''prompt'' @ apostrophe # '' is required'')"

definition deepseek_call_tool ::
  "deepseek_env \<Rightarrow> string \<Rightarrow> arguments \<Rightarrow> deepseek_trace
     \<Rightarrow> (exn + TextContent list) \<times> deepseek_trace" where
  "deepseek_call_tool d tool_name args tr =
     (if tool_name \<noteq> ''ask_deepseek''
      then (Inl (ValueError (''Unknown tool: '' @ tool_name)), tr)
      else
        (case args of
           Not_a_dict \<Rightarrow>
             (Inl invalid_deepseek_arguments, tr)
         | Dict kvs \<Rightarrow>
             (case map_of kvs ''prompt'' of
                None \<Rightarrow>
                  (Inl invalid_deepseek_arguments, tr)
              | Some prompt \<Rightarrow>
                  (let model = (case map_of kvs ''model'' of Some m \<Rightarrow> m | None \<Rightarrow> DEFAULT_MODEL)
                   in case query_deepseek d prompt model tr of
                        (Inl ex, tr') \<Rightarrow> (Inl ex, tr')
                      | (Inr result, tr') \<Rightarrow>
                          (case map_of result ''response'' of
                             None \<Rightarrow> (Inl (KeyError ''response''), tr')
                           | Some response \<Rightarrow>
                               (Inr [\<lparr> content_type = ''text'',
                                        content_text = response \<rparr>], tr'))))))"

section \<open>\<open>services/time_service.py\<close>: class \<open>TimeService\<close>\<close>

text \<open>
  The clock and the two libraries are parameters: \<open>pytz.all_timezones\<close>, the value of
  \<open>datetime.now(pytz.UTC)\<close>, \<open>utc_now.astimezone(pytz.timezone(name))\<close> and \<open>strftime\<close>,
  each of the last two with the message of the exception it may raise, and the \<open>repr\<close>
  of the float \<open>utc_now.timestamp()\<close>. The second component of the result is what the
  call wrote to the logger.
\<close>

datatype level = INFO | WARNING | ERROR

record 'dt time_env =
  all_timezones :: "string list"
  utc_now :: "'dt"
  astimezone :: "'dt \<Rightarrow> string \<Rightarrow> string + 'dt"
  strftime :: "'dt \<Rightarrow> string \<Rightarrow> string + string"
  timestamp_repr :: "'dt \<Rightarrow> string"

definition time_failure ::
  "string \<Rightarrow> (level \<times> string) list \<Rightarrow> (exn + pydict) \<times> (level \<times> string) list" where
  "time_failure m logged =
     (Inl (RuntimeError (''Error getting current time: '' @ m)),
      logged @ [(ERROR, ''Error getting current time: '' @ m)])"

definition get_current_time ::
  "'dt time_env \<Rightarrow> string \<Rightarrow> string \<Rightarrow> (exn + pydict) \<times> (level \<times> string) list" where
  "get_current_time t timezone format_str =
     (let (timezone', logged) =
            (if timezone \<notin> set (all_timezones t)
             then (''UTC'',
                   [(WARNING, ''Invalid timezone: '' @ timezone @ '', using UTC instead'')])
             else (timezone, []))
      in case astimezone t (utc_now t) timezone' of
           Inl m \<Rightarrow> time_failure m logged
         | Inr local_now \<Rightarrow>
             (case strftime t local_now format_str of
                Inl m \<Rightarrow> time_failure m logged
              | Inr formatted_time \<Rightarrow>
                  (case strftime t (utc_now t) format_str of
                     Inl m \<Rightarrow> time_failure m logged
                   | Inr utc_time \<Rightarrow>
                       (Inr [(''current_time'', PStr formatted_time),
                             (''timezone'', PStr timezone'),
                             (''format'', PStr format_str),
                             (''utc_time'', PStr utc_time),
                             (''timestamp'', PFloat (timestamp_repr t (utc_now t)))],
                        logged))))"

section \<open>Outcome of one attempt\<close>

text \<open>
  What the statements of one \<open>try\<close> block of \<open>translate_text\<close> compute from the response,
  up to \<open>data["translation"]\<close>: the message of the exception raised, or the translation.
  Both implementations run the same three calls on the response.
\<close>

definition translate_attempt :: "response \<Rightarrow> string + pyval" where
  "translate_attempt resp =
     (case raise_for_status resp of
        Inl m \<Rightarrow> Inl m
      | Inr ok \<Rightarrow> (case response_json ok of Inl m \<Rightarrow> Inl m | Inr data \<Rightarrow> subscript_translation data))"

text \<open>The same for one \<open>try\<close> block of \<open>get_available_languages\<close>.\<close>

definition languages_attempt :: "response \<Rightarrow> string + pyval" where
  "languages_attempt resp =
     (case raise_for_status resp of Inl m \<Rightarrow> Inl m | Inr ok \<Rightarrow> response_json ok)"

text \<open>
  Every request a call made, from trace \<open>tr\<close> to trace \<open>tr'\<close>, got an answer on which the
  attempt failed.
\<close>

definition all_attempts_failed ::
  "(response \<Rightarrow> string + pyval) \<Rightarrow> env \<Rightarrow> trace \<Rightarrow> trace \<Rightarrow> bool" where
  "all_attempts_failed attempt e tr tr' =
     (\<forall>i\<in>{length tr..<length tr'}. isl (attempt (http_get e i (tr' ! i))))"

section \<open>A small network for concrete runs\<close>

text \<open>
  Two endpoints with base URLs \<open>A\<close> and \<open>B\<close>, each with a fixed answer; every other URL
  answers 404.
\<close>

definition example_env :: "response \<Rightarrow> response \<Rightarrow> env" where
  "example_env answer_A answer_B =
     \<lparr> http_get = (\<lambda>n url. if take 2 url = ''A/'' then answer_A
                          else if take 2 url = ''B/'' then answer_B
                          else Status_error ''404 Not Found''),
       now_iso = (\<lambda>n. ''2024-05-01T12:00:00'') \<rparr>"

definition example_translation :: response where
  "example_translation = Body_json (PDict [(''translation'', PStr ''ni hao'')])"

definition example_service :: "string \<Rightarrow> LingvaService" where
  "example_service primary = \<lparr>primary_api_url = primary, api_alternatives = [''A'', ''B'']\<rparr>"

definition example_globals :: "string \<Rightarrow> globals" where
  "example_globals primary =
     \<lparr>LINGVA_API_URL = primary, LINGVA_API_ALTERNATIVES = [''A'', ''B'']\<rparr>"

text \<open>The result of translating \<open>hi\<close> from \<open>en\<close> to \<open>zh\<close> through an alternative.\<close>

definition example_result :: "string \<Rightarrow> pydict" where
  "example_result api_used =
     [(''original_text'', PStr ''hi''), (''translated_text'', PStr ''ni hao''),
      (''source_language'', PStr ''en''), (''target_language'', PStr ''zh''),
      (''timestamp'', PStr ''2024-05-01T12:00:00''), (''api_used'', PStr api_used)]"

text \<open>
  A clock and a time-zone library for concrete runs: a datetime is the name of its zone,
  \<open>strftime\<close> raises on a format with a null character.
\<close>

definition example_time_env :: "string time_env" where
  "example_time_env =
     \<lparr> all_timezones = [''Asia/Shanghai'', ''UTC''],
       utc_now = ''UTC'',
       astimezone = (\<lambda>now zone. Inr zone),
       strftime = (\<lambda>now format_str.
                    if CHR 0x00 \<in> set format_str then Inl ''embedded null character''
                    else Inr (''2024-05-01 12:00:00 '' @ now)),
       timestamp_repr = (\<lambda>now. ''1714564800.0'') \<rparr>"

text \<open>A DeepSeek upstream that answers every call.\<close>

definition example_deepseek_env :: deepseek_env where
  "example_deepseek_env =
     \<lparr> chat_completions_create =
         (\<lambda>n model prompt.
            Inr \<lparr> completion_model = model, completion_content = ''Hello!'',
                  completion_finish_reason = ''stop'' \<rparr>),
       deepseek_now_iso = (\<lambda>n. ''2024-05-01T12:00:00'') \<rparr>"

text \<open>
  An outage for concrete runs on the configured URLs: the first listed endpoint
  (\<open>lingva.garudalinux.org\<close>) gives one fixed answer, no other host can be reached.
\<close>

definition pussthecat :: string where
  "pussthecat = ''https://lingva.pussthecat.org/api/v1''"

definition upstream_outage :: "response \<Rightarrow> env" where
  "upstream_outage garudalinux_answer =
     \<lparr> http_get = (\<lambda>n url. if prefix (default_api_url @ ''/'') url then garudalinux_answer
                          else Transport_error ''All connection attempts failed''),
       now_iso = (\<lambda>n. ''2024-05-01T12:00:00'') \<rparr>"

section \<open>Properties of the failover loops\<close>

text \<open>
  For each loop: one iteration restated by the outcome of the attempt, then what a run of
  the loop preserves, what a run that returns a result ended with, and what a run in
  which every request failed returns.
\<close>

subsection \<open>The loop of \<open>translate_text\<close> in \<open>translate_server.py\<close>\<close>

lemma translate_alternatives_step:
  "translate_alternatives e text src tgt (a # rest) g errors tr =
     (if a = LINGVA_API_URL g then translate_alternatives e text src tgt rest g errors tr
      else (case translate_attempt (http_get e (length tr) (translate_url a src tgt (quote text))) of
              Inl m \<Rightarrow> translate_alternatives e text src tgt rest g
                         (errors @ [alternative_error a m]) (tr @ [translate_url a src tgt (quote text)])
            | Inr t \<Rightarrow> (Inr [(''original_text'', PStr text), (''translated_text'', t),
                             (''source_language'', PStr src), (''target_language'', PStr tgt),
                             (''timestamp'', PStr (now_iso e (Suc (length tr)))),
                             (''api_used'', PStr a)],
                        g\<lparr>LINGVA_API_URL := a\<rparr>, tr @ [translate_url a src tgt (quote text)])))"
  by (simp add: translate_attempt_def client_get_def split: sum.splits)

lemma translate_text_step:
  "translate_text e text src tgt g tr =
     (case translate_attempt (http_get e (length tr)
              (translate_url (LINGVA_API_URL g) src tgt (quote text))) of
        Inl m \<Rightarrow> translate_alternatives e text src tgt (LINGVA_API_ALTERNATIVES g) g
                   [primary_error m] (tr @ [translate_url (LINGVA_API_URL g) src tgt (quote text)])
      | Inr t \<Rightarrow> (Inr [(''original_text'', PStr text), (''translated_text'', t),
                       (''source_language'', PStr src), (''target_language'', PStr tgt),
                       (''timestamp'', PStr (now_iso e (Suc (length tr))))],
                  g, tr @ [translate_url (LINGVA_API_URL g) src tgt (quote text)]))"
  by (simp add: translate_text_def translate_attempt_def client_get_def split: sum.splits)

declare translate_alternatives.simps(2) [simp del]

lemma translate_alternatives_frame:
  "translate_alternatives e text src tgt alts g errors tr = (res, g', tr') \<Longrightarrow>
     LINGVA_API_ALTERNATIVES g' = LINGVA_API_ALTERNATIVES g \<and> prefix tr tr'
     \<and> LINGVA_API_URL g' \<in> insert (LINGVA_API_URL g) (set alts)"
proof (induction alts arbitrary: errors tr)
  case Nil
  then show ?case by simp
next
  case (Cons a rest)
  then show ?case
    by (fastforce simp: translate_alternatives_step split: if_splits sum.splits
          dest: append_prefixD)
qed

lemma translate_alternatives_failure_keeps_state:
  "translate_alternatives e text src tgt alts g errors tr = (Inl ex, g', tr') \<Longrightarrow> g' = g"
proof (induction alts arbitrary: errors tr)
  case Nil
  then show ?case by simp
next
  case (Cons a rest)
  then show ?case
    by (auto simp: translate_alternatives_step split: if_splits sum.splits)
qed

lemma translate_alternatives_success:
  "translate_alternatives e text src tgt alts g errors tr = (Inr r, g', tr') \<Longrightarrow>
     \<exists>k tr0. k \<in> set alts \<and> k \<noteq> LINGVA_API_URL g \<and> g' = g\<lparr>LINGVA_API_URL := k\<rparr>
        \<and> map_of r ''api_used'' = Some (PStr k)
        \<and> tr' = tr0 @ [translate_url k src tgt (quote text)]
        \<and> (\<exists>t. translate_attempt (http_get e (length tr0) (translate_url k src tgt (quote text))) = Inr t
               \<and> map_of r ''translated_text'' = Some t)"
proof (induction alts arbitrary: errors tr)
  case Nil
  then show ?case by simp
next
  case (Cons a rest)
  show ?case
  proof (cases "a = LINGVA_API_URL g")
    case True
    with Cons.prems have "translate_alternatives e text src tgt rest g errors tr = (Inr r, g', tr')"
      by (simp add: translate_alternatives_step)
    from Cons.IH [OF this] show ?thesis by auto
  next
    case False
    let ?u = "translate_url a src tgt (quote text)"
    show ?thesis
    proof (cases "translate_attempt (http_get e (length tr) ?u)")
      case (Inl m)
      with False Cons.prems
      have "translate_alternatives e text src tgt rest g (errors @ [alternative_error a m]) (tr @ [?u])
              = (Inr r, g', tr')"
        by (simp add: translate_alternatives_step)
      from Cons.IH [OF this] show ?thesis by auto
    next
      case (Inr t)
      with False Cons.prems show ?thesis
        by (auto simp: translate_alternatives_step)
    qed
  qed
qed

lemma all_attempts_failed_step:
  "all_attempts_failed attempt e tr tr' \<Longrightarrow> all_attempts_failed attempt e (tr @ [u]) tr'"
  by (simp add: all_attempts_failed_def)

lemma all_attempts_failed_last:
  "all_attempts_failed attempt e tr (tr @ [u]) \<Longrightarrow> isl (attempt (http_get e (length tr) u))"
  by (simp add: all_attempts_failed_def)

lemma translate_alternatives_all_failed:
  assumes "translate_alternatives e text src tgt alts g errors tr = (res, g', tr')"
    and "all_attempts_failed translate_attempt e tr tr'"
  shows "\<exists>ams. map fst ams = filter (\<lambda>a. a \<noteq> LINGVA_API_URL g) alts
           \<and> tr' = tr @ map (\<lambda>(a, m). translate_url a src tgt (quote text)) ams
           \<and> (\<forall>i<length ams. translate_attempt (http_get e (length tr + i)
                   (translate_url (fst (ams ! i)) src tgt (quote text))) = Inl (snd (ams ! i)))
           \<and> res = Inl (all_failed (errors @ map (\<lambda>(a, m). alternative_error a m) ams))
           \<and> g' = g"
  using assms
proof (induction alts arbitrary: errors tr)
  case Nil
  then show ?case by simp
next
  case (Cons a rest)
  show ?case
  proof (cases "a = LINGVA_API_URL g")
    case True
    with Cons.prems have "translate_alternatives e text src tgt rest g errors tr = (res, g', tr')"
      by (simp add: translate_alternatives_step)
    from Cons.IH [OF this Cons.prems(2)] True show ?thesis by simp
  next
    case False
    let ?u = "translate_url a src tgt (quote text)"
    show ?thesis
    proof (cases "translate_attempt (http_get e (length tr) ?u)")
      case (Inl m)
      with False Cons.prems
      have run: "translate_alternatives e text src tgt rest g (errors @ [alternative_error a m])
                (tr @ [?u]) = (res, g', tr')"
        by (simp add: translate_alternatives_step)
      from Cons.IH [OF run all_attempts_failed_step [OF Cons.prems(2)]]
      obtain ams where ams:
        "map fst ams = filter (\<lambda>a. a \<noteq> LINGVA_API_URL g) rest"
        "tr' = (tr @ [?u]) @ map (\<lambda>(a, m). translate_url a src tgt (quote text)) ams"
        "\<forall>i<length ams. translate_attempt (http_get e (length (tr @ [?u]) + i)
             (translate_url (fst (ams ! i)) src tgt (quote text))) = Inl (snd (ams ! i))"
        "res = Inl (all_failed ((errors @ [alternative_error a m])
                 @ map (\<lambda>(a, m). alternative_error a m) ams))"
        "g' = g"
        by blast
      let ?ams = "(a, m) # ams"
      have "\<forall>i<length ?ams. translate_attempt (http_get e (length tr + i)
               (translate_url (fst (?ams ! i)) src tgt (quote text))) = Inl (snd (?ams ! i))"
      proof (intro allI impI)
        fix i assume "i < length ?ams"
        then show "translate_attempt (http_get e (length tr + i)
               (translate_url (fst (?ams ! i)) src tgt (quote text))) = Inl (snd (?ams ! i))"
          using Inl ams(3) by (cases i) auto
      qed
      with ams False show ?thesis
        by (intro exI [of _ ?ams]) simp
    next
      case (Inr t)
      with False Cons.prems(1) have "tr' = tr @ [?u]"
        by (simp add: translate_alternatives_step)
      with Cons.prems(2) have "isl (translate_attempt (http_get e (length tr) ?u))"
        by (simp add: all_attempts_failed_last)
      with Inr show ?thesis by simp
    qed
  qed
qed

subsection \<open>The loop of \<open>LingvaService.translate_text\<close>\<close>

text \<open>
  A failed attempt whose body was decoded goes on with the alternative as primary: the
  assignment precedes the read of the field.
\<close>

lemma LingvaService_translate_alternatives_step:
  "LingvaService_translate_alternatives e text src tgt (a # rest) self errors tr =
     (if a = primary_api_url self
      then LingvaService_translate_alternatives e text src tgt rest self errors tr
      else (case translate_attempt (http_get e (length tr) (translate_url a src tgt (quote text))) of
              Inl m \<Rightarrow> LingvaService_translate_alternatives e text src tgt rest
                         (if isl (languages_attempt
                                    (http_get e (length tr) (translate_url a src tgt (quote text))))
                          then self else self\<lparr>primary_api_url := a\<rparr>)
                         (errors @ [alternative_error a m]) (tr @ [translate_url a src tgt (quote text)])
            | Inr t \<Rightarrow> (Inr [(''original_text'', PStr text), (''translated_text'', t),
                             (''source_language'', PStr src), (''target_language'', PStr tgt),
                             (''timestamp'', PStr (now_iso e (Suc (length tr)))),
                             (''api_used'', PStr a)],
                        self\<lparr>primary_api_url := a\<rparr>, tr @ [translate_url a src tgt (quote text)])))"
  by (simp add: translate_attempt_def languages_attempt_def client_get_def split: sum.splits)

lemma LingvaService_translate_text_step:
  "LingvaService_translate_text e text src tgt self tr =
     (case translate_attempt (http_get e (length tr)
              (translate_url (primary_api_url self) src tgt (quote text))) of
        Inl m \<Rightarrow> LingvaService_translate_alternatives e text src tgt (api_alternatives self) self
                   [primary_error m] (tr @ [translate_url (primary_api_url self) src tgt (quote text)])
      | Inr t \<Rightarrow> (Inr [(''original_text'', PStr text), (''translated_text'', t),
                       (''source_language'', PStr src), (''target_language'', PStr tgt),
                       (''timestamp'', PStr (now_iso e (Suc (length tr))))],
                  self, tr @ [translate_url (primary_api_url self) src tgt (quote text)]))"
  by (simp add: LingvaService_translate_text_def translate_attempt_def client_get_def
           split: sum.splits)

declare LingvaService_translate_alternatives.simps(2) [simp del]

lemma LingvaService_translate_alternatives_frame:
  "LingvaService_translate_alternatives e text src tgt alts self errors tr = (res, self', tr') \<Longrightarrow>
     api_alternatives self' = api_alternatives self \<and> prefix tr tr'
     \<and> primary_api_url self' \<in> insert (primary_api_url self) (set alts)"
proof (induction alts arbitrary: self errors tr)
  case Nil
  then show ?case by simp
next
  case (Cons a rest)
  then show ?case
    by (fastforce simp: LingvaService_translate_alternatives_step
          split: if_splits sum.splits dest: append_prefixD)
qed

lemma LingvaService_translate_alternatives_success:
  "LingvaService_translate_alternatives e text src tgt alts self errors tr = (Inr r, self', tr') \<Longrightarrow>
     \<exists>k tr0. k \<in> set alts \<and> primary_api_url self' = k
        \<and> map_of r ''api_used'' = Some (PStr k)
        \<and> tr' = tr0 @ [translate_url k src tgt (quote text)]
        \<and> (\<exists>t. translate_attempt (http_get e (length tr0) (translate_url k src tgt (quote text))) = Inr t
               \<and> map_of r ''translated_text'' = Some t)"
proof (induction alts arbitrary: self errors tr)
  case Nil
  then show ?case by simp
next
  case (Cons a rest)
  show ?case
  proof (cases "a = primary_api_url self")
    case True
    with Cons.prems
    have "LingvaService_translate_alternatives e text src tgt rest self errors tr = (Inr r, self', tr')"
      by (simp add: LingvaService_translate_alternatives_step)
    from Cons.IH [OF this] show ?thesis by auto
  next
    case False
    let ?u = "translate_url a src tgt (quote text)"
    show ?thesis
    proof (cases "translate_attempt (http_get e (length tr) ?u)")
      case (Inl m)
      with False Cons.prems
      obtain s1 where "LingvaService_translate_alternatives e text src tgt rest s1
                (errors @ [alternative_error a m]) (tr @ [?u]) = (Inr r, self', tr')"
        by (simp add: LingvaService_translate_alternatives_step)
      from Cons.IH [OF this] show ?thesis by auto
    next
      case (Inr t)
      with False Cons.prems show ?thesis
        by (auto simp: LingvaService_translate_alternatives_step)
    qed
  qed
qed

lemma LingvaService_translate_alternatives_all_failed:
  assumes "LingvaService_translate_alternatives e text src tgt alts self errors tr = (res, self', tr')"
    and "all_attempts_failed translate_attempt e tr tr'"
  shows "\<exists>ams. subseq (map fst ams) alts
           \<and> tr' = tr @ map (\<lambda>(a, m). translate_url a src tgt (quote text)) ams
           \<and> (\<forall>i<length ams. translate_attempt (http_get e (length tr + i)
                   (translate_url (fst (ams ! i)) src tgt (quote text))) = Inl (snd (ams ! i)))
           \<and> res = Inl (all_failed (errors @ map (\<lambda>(a, m). alternative_error a m) ams))"
  using assms
proof (induction alts arbitrary: self errors tr)
  case Nil
  then show ?case by simp
next
  case (Cons a rest)
  show ?case
  proof (cases "a = primary_api_url self")
    case True
    with Cons.prems
    have "LingvaService_translate_alternatives e text src tgt rest self errors tr = (res, self', tr')"
      by (simp add: LingvaService_translate_alternatives_step)
    from Cons.IH [OF this Cons.prems(2)] show ?thesis by auto
  next
    case False
    let ?u = "translate_url a src tgt (quote text)"
    show ?thesis
    proof (cases "translate_attempt (http_get e (length tr) ?u)")
      case (Inl m)
      with False Cons.prems
      obtain s1 where run: "LingvaService_translate_alternatives e text src tgt rest s1
                (errors @ [alternative_error a m]) (tr @ [?u]) = (res, self', tr')"
        by (simp add: LingvaService_translate_alternatives_step)
      from Cons.IH [OF run all_attempts_failed_step [OF Cons.prems(2)]]
      obtain ams where ams:
        "subseq (map fst ams) rest"
        "tr' = (tr @ [?u]) @ map (\<lambda>(a, m). translate_url a src tgt (quote text)) ams"
        "\<forall>i<length ams. translate_attempt (http_get e (length (tr @ [?u]) + i)
             (translate_url (fst (ams ! i)) src tgt (quote text))) = Inl (snd (ams ! i))"
        "res = Inl (all_failed ((errors @ [alternative_error a m])
                 @ map (\<lambda>(a, m). alternative_error a m) ams))"
        by blast
      let ?ams = "(a, m) # ams"
      have "\<forall>i<length ?ams. translate_attempt (http_get e (length tr + i)
               (translate_url (fst (?ams ! i)) src tgt (quote text))) = Inl (snd (?ams ! i))"
      proof (intro allI impI)
        fix i assume "i < length ?ams"
        then show "translate_attempt (http_get e (length tr + i)
               (translate_url (fst (?ams ! i)) src tgt (quote text))) = Inl (snd (?ams ! i))"
          using Inl ams(3) by (cases i) auto
      qed
      with ams show ?thesis
        by (intro exI [of _ ?ams]) simp
    next
      case (Inr t)
      with False Cons.prems(1) have "tr' = tr @ [?u]"
        by (simp add: LingvaService_translate_alternatives_step)
      with Cons.prems(2) have "isl (translate_attempt (http_get e (length tr) ?u))"
        by (simp add: all_attempts_failed_last)
      with Inr show ?thesis by simp
    qed
  qed
qed

subsection \<open>The loop of \<open>LingvaService.get_available_languages\<close>\<close>

text \<open>
  A failed attempt whose status was accepted goes on with the alternative as primary: the
  assignment precedes \<open>response.json()\<close>.
\<close>

lemma LingvaService_languages_alternatives_step:
  "LingvaService_languages_alternatives e (a # rest) self errors tr =
     (if a = primary_api_url self then LingvaService_languages_alternatives e rest self errors tr
      else (case languages_attempt (http_get e (length tr) (languages_url a)) of
              Inl m \<Rightarrow> LingvaService_languages_alternatives e rest
                         (if isl (raise_for_status (http_get e (length tr) (languages_url a)))
                          then self else self\<lparr>primary_api_url := a\<rparr>)
                         (errors @ [alternative_error a m]) (tr @ [languages_url a])
            | Inr languages \<Rightarrow>
                ((languages, errors), self\<lparr>primary_api_url := a\<rparr>, tr @ [languages_url a])))"
  by (simp add: languages_attempt_def client_get_def split: sum.splits)

lemma LingvaService_get_available_languages_step:
  "LingvaService_get_available_languages e self tr =
     (case languages_attempt (http_get e (length tr) (languages_url (primary_api_url self))) of
        Inl m \<Rightarrow> LingvaService_languages_alternatives e (api_alternatives self) self [primary_error m] (tr @ [languages_url (primary_api_url self)])
      | Inr languages \<Rightarrow> ((languages, []), self, tr @ [languages_url (primary_api_url self)]))"
  by (simp add: LingvaService_get_available_languages_def languages_attempt_def client_get_def split: sum.splits)

declare LingvaService_languages_alternatives.simps(2) [simp del]

lemma LingvaService_languages_alternatives_frame:
  "LingvaService_languages_alternatives e alts self errors tr = (res, self', tr') \<Longrightarrow>
     api_alternatives self' = api_alternatives self \<and> prefix tr tr' \<and> primary_api_url self' \<in> insert (primary_api_url self) (set alts)"
proof (induction alts arbitrary: self errors tr)
  case Nil
  then show ?case by simp
next
  case (Cons a rest)
  then show ?case
    by (fastforce simp: LingvaService_languages_alternatives_step split: if_splits sum.splits dest: append_prefixD)
qed

lemma LingvaService_languages_alternatives_all_failed:
  assumes "LingvaService_languages_alternatives e alts self errors tr = (res, self', tr')"
    and "all_attempts_failed languages_attempt e tr tr'"
  shows "fst res = LingvaService_default_languages"
  using assms
proof (induction alts arbitrary: self errors tr)
  case Nil
  then show ?case by auto
next
  case (Cons a rest)
  show ?case
  proof (cases "a = primary_api_url self")
    case True
    with Cons.prems have "LingvaService_languages_alternatives e rest self errors tr = (res, self', tr')"
      by (simp add: LingvaService_languages_alternatives_step)
    from Cons.IH [OF this Cons.prems(2)] show ?thesis .
  next
    case False
    let ?u = "languages_url a"
    show ?thesis
    proof (cases "languages_attempt (http_get e (length tr) ?u)")
      case (Inl m)
      with False Cons.prems
      obtain s1 where run: "LingvaService_languages_alternatives e rest s1 (errors @ [alternative_error a m]) (tr @ [?u])
                = (res, self', tr')"
        by (simp add: LingvaService_languages_alternatives_step)
      from Cons.IH [OF run all_attempts_failed_step [OF Cons.prems(2)]] show ?thesis .
    next
      case (Inr languages)
      with False Cons.prems(1) have "tr' = tr @ [?u]"
        by (simp add: LingvaService_languages_alternatives_step)
      with Cons.prems(2) have "isl (languages_attempt (http_get e (length tr) ?u))"
        by (simp add: all_attempts_failed_last)
      with Inr show ?thesis by simp
    qed
  qed
qed

subsection \<open>The loop of \<open>get_available_languages\<close> in \<open>translate_server.py\<close>\<close>

lemma languages_alternatives_step:
  "languages_alternatives e (a # rest) g errors tr =
     (if a = LINGVA_API_URL g then languages_alternatives e rest g errors tr
      else (case languages_attempt (http_get e (length tr) (languages_url a)) of
              Inl m \<Rightarrow> languages_alternatives e rest
                         (if isl (raise_for_status (http_get e (length tr) (languages_url a)))
                          then g else g\<lparr>LINGVA_API_URL := a\<rparr>)
                         (errors @ [alternative_error a m]) (tr @ [languages_url a])
            | Inr languages \<Rightarrow>
                ((languages, errors), g\<lparr>LINGVA_API_URL := a\<rparr>, tr @ [languages_url a])))"
  by (simp add: languages_attempt_def client_get_def split: sum.splits)

lemma get_available_languages_step:
  "get_available_languages e g tr =
     (case languages_attempt (http_get e (length tr) (languages_url (LINGVA_API_URL g))) of
        Inl m \<Rightarrow> languages_alternatives e (LINGVA_API_ALTERNATIVES g) g [primary_error m] (tr @ [languages_url (LINGVA_API_URL g)])
      | Inr languages \<Rightarrow> ((languages, []), g, tr @ [languages_url (LINGVA_API_URL g)]))"
  by (simp add: get_available_languages_def languages_attempt_def client_get_def split: sum.splits)

declare languages_alternatives.simps(2) [simp del]

lemma languages_alternatives_frame:
  "languages_alternatives e alts g errors tr = (res, g', tr') \<Longrightarrow>
     LINGVA_API_ALTERNATIVES g' = LINGVA_API_ALTERNATIVES g \<and> prefix tr tr' \<and> LINGVA_API_URL g' \<in> insert (LINGVA_API_URL g) (set alts)"
proof (induction alts arbitrary: g errors tr)
  case Nil
  then show ?case by simp
next
  case (Cons a rest)
  then show ?case
    by (fastforce simp: languages_alternatives_step split: if_splits sum.splits dest: append_prefixD)
qed

lemma languages_alternatives_all_failed:
  assumes "languages_alternatives e alts g errors tr = (res, g', tr')"
    and "all_attempts_failed languages_attempt e tr tr'"
  shows "fst res = default_languages"
  using assms
proof (induction alts arbitrary: g errors tr)
  case Nil
  then show ?case by auto
next
  case (Cons a rest)
  show ?case
  proof (cases "a = LINGVA_API_URL g")
    case True
    with Cons.prems have "languages_alternatives e rest g errors tr = (res, g', tr')"
      by (simp add: languages_alternatives_step)
    from Cons.IH [OF this Cons.prems(2)] show ?thesis .
  next
    case False
    let ?u = "languages_url a"
    show ?thesis
    proof (cases "languages_attempt (http_get e (length tr) ?u)")
      case (Inl m)
      with False Cons.prems
      obtain s1 where run: "languages_alternatives e rest s1 (errors @ [alternative_error a m]) (tr @ [?u])
                = (res, g', tr')"
        by (simp add: languages_alternatives_step)
      from Cons.IH [OF run all_attempts_failed_step [OF Cons.prems(2)]] show ?thesis .
    next
      case (Inr languages)
      with False Cons.prems(1) have "tr' = tr @ [?u]"
        by (simp add: languages_alternatives_step)
      with Cons.prems(2) have "isl (languages_attempt (http_get e (length tr) ?u))"
        by (simp add: all_attempts_failed_last)
      with Inr show ?thesis by simp
    qed
  qed
qed

subsection \<open>Whole calls\<close>

lemma LingvaService_translate_text_frame:
  "LingvaService_translate_text e text src tgt self tr = (res, self', tr') \<Longrightarrow>
     api_alternatives self' = api_alternatives self
     \<and> prefix (tr @ [translate_url (primary_api_url self) src tgt (quote text)]) tr'
     \<and> primary_api_url self' \<in> insert (primary_api_url self) (set (api_alternatives self))"
  by (auto simp: LingvaService_translate_text_step split: sum.splits
        dest!: LingvaService_translate_alternatives_frame)

lemma translate_text_frame:
  "translate_text e text src tgt g tr = (res, g', tr') \<Longrightarrow>
     LINGVA_API_ALTERNATIVES g' = LINGVA_API_ALTERNATIVES g
     \<and> prefix (tr @ [translate_url (LINGVA_API_URL g) src tgt (quote text)]) tr'
     \<and> LINGVA_API_URL g' \<in> insert (LINGVA_API_URL g) (set (LINGVA_API_ALTERNATIVES g))"
  by (auto simp: translate_text_step split: sum.splits dest!: translate_alternatives_frame)

lemma LingvaService_get_available_languages_frame:
  "LingvaService_get_available_languages e self tr = (res, self', tr') \<Longrightarrow>
     api_alternatives self' = api_alternatives self
     \<and> prefix (tr @ [languages_url (primary_api_url self)]) tr'
     \<and> primary_api_url self' \<in> insert (primary_api_url self) (set (api_alternatives self))"
  by (auto simp: LingvaService_get_available_languages_step split: sum.splits
        dest!: LingvaService_languages_alternatives_frame)

lemma get_available_languages_frame:
  "get_available_languages e g tr = (res, g', tr') \<Longrightarrow>
     LINGVA_API_ALTERNATIVES g' = LINGVA_API_ALTERNATIVES g
     \<and> prefix (tr @ [languages_url (LINGVA_API_URL g)]) tr'
     \<and> LINGVA_API_URL g' \<in> insert (LINGVA_API_URL g) (set (LINGVA_API_ALTERNATIVES g))"
  by (auto simp: get_available_languages_step split: sum.splits
        dest!: languages_alternatives_frame)

lemma first_request_LingvaService_translate_text:
  "prefix (tr @ [translate_url (primary_api_url self) src tgt (quote text)])
     (snd (snd (LingvaService_translate_text e text src tgt self tr)))"
  using LingvaService_translate_text_frame [of e "text" src tgt self tr]
  by (cases "LingvaService_translate_text e text src tgt self tr") simp

lemma first_request_translate_text:
  "prefix (tr @ [translate_url (LINGVA_API_URL g) src tgt (quote text)])
     (snd (snd (translate_text e text src tgt g tr)))"
  using translate_text_frame [of e "text" src tgt g tr]
  by (cases "translate_text e text src tgt g tr") simp

lemma first_request_LingvaService_get_available_languages:
  "prefix (tr @ [languages_url (primary_api_url self)])
     (snd (snd (LingvaService_get_available_languages e self tr)))"
  using LingvaService_get_available_languages_frame [of e self tr]
  by (cases "LingvaService_get_available_languages e self tr") simp

lemma first_request_get_available_languages:
  "prefix (tr @ [languages_url (LINGVA_API_URL g)])
     (snd (snd (get_available_languages e g tr)))"
  using get_available_languages_frame [of e g tr]
  by (cases "get_available_languages e g tr") simp

lemma LingvaService_translate_text_failover_success:
  assumes "LingvaService_translate_text e text src tgt self tr = (Inr r, self', tr')"
    and "isl (translate_attempt (http_get e (length tr)
                (translate_url (primary_api_url self) src tgt (quote text))))"
  shows "\<exists>k tr0. k \<in> set (api_alternatives self) \<and> primary_api_url self' = k
        \<and> map_of r ''api_used'' = Some (PStr k)
        \<and> tr' = tr0 @ [translate_url k src tgt (quote text)]
        \<and> \<not> isl (translate_attempt (http_get e (length tr0) (translate_url k src tgt (quote text))))"
proof -
  from assms(2) obtain m where
    "translate_attempt (http_get e (length tr)
        (translate_url (primary_api_url self) src tgt (quote text))) = Inl m"
    by (auto simp: isl_def)
  with assms(1) have "LingvaService_translate_alternatives e text src tgt (api_alternatives self)
      self [primary_error m] (tr @ [translate_url (primary_api_url self) src tgt (quote text)])
      = (Inr r, self', tr')"
    by (simp add: LingvaService_translate_text_step)
  from LingvaService_translate_alternatives_success [OF this] show ?thesis
    by fastforce
qed

lemma translate_text_failover_success:
  assumes "translate_text e text src tgt g tr = (Inr r, g', tr')"
    and "isl (translate_attempt (http_get e (length tr)
                (translate_url (LINGVA_API_URL g) src tgt (quote text))))"
  shows "\<exists>k tr0. k \<in> set (LINGVA_API_ALTERNATIVES g) \<and> LINGVA_API_URL g' = k
        \<and> map_of r ''api_used'' = Some (PStr k)
        \<and> tr' = tr0 @ [translate_url k src tgt (quote text)]
        \<and> \<not> isl (translate_attempt (http_get e (length tr0) (translate_url k src tgt (quote text))))"
proof -
  from assms(2) obtain m where
    "translate_attempt (http_get e (length tr)
        (translate_url (LINGVA_API_URL g) src tgt (quote text))) = Inl m"
    by (auto simp: isl_def)
  with assms(1) have "translate_alternatives e text src tgt (LINGVA_API_ALTERNATIVES g)
      g [primary_error m] (tr @ [translate_url (LINGVA_API_URL g) src tgt (quote text)])
      = (Inr r, g', tr')"
    by (simp add: translate_text_step)
  from translate_alternatives_success [OF this] show ?thesis
    by fastforce
qed

lemma all_attempts_failed_first:
  assumes "all_attempts_failed attempt e tr tr'" and "prefix (tr @ [u]) tr'"
  shows "isl (attempt (http_get e (length tr) u))"
proof -
  from assms(2) obtain more where tr': "tr' = tr @ u # more"
    by (auto simp: prefix_def)
  then have "length tr \<in> {length tr..<length tr'}" and "tr' ! length tr = u"
    by simp_all
  with assms(1) show ?thesis
    unfolding all_attempts_failed_def by metis
qed

lemma LingvaService_translate_alternatives_trace:
  "prefix tr (snd (snd (LingvaService_translate_alternatives e text src tgt alts self errors tr)))"
  using LingvaService_translate_alternatives_frame [of e "text" src tgt alts self errors tr]
  by (cases "LingvaService_translate_alternatives e text src tgt alts self errors tr") simp

lemma translate_alternatives_trace:
  "prefix tr (snd (snd (translate_alternatives e text src tgt alts g errors tr)))"
  using translate_alternatives_frame [of e "text" src tgt alts g errors tr]
  by (cases "translate_alternatives e text src tgt alts g errors tr") simp

lemma LingvaService_languages_alternatives_trace:
  "prefix tr (snd (snd (LingvaService_languages_alternatives e alts self errors tr)))"
  using LingvaService_languages_alternatives_frame [of e alts self errors tr]
  by (cases "LingvaService_languages_alternatives e alts self errors tr") simp

lemma languages_alternatives_trace:
  "prefix tr (snd (snd (languages_alternatives e alts g errors tr)))"
  using languages_alternatives_frame [of e alts g errors tr]
  by (cases "languages_alternatives e alts g errors tr") simp

lemma first_request_LingvaService_translate_alternatives:
  "alt \<noteq> primary_api_url self \<Longrightarrow>
     prefix (tr @ [translate_url alt src tgt (quote text)])
       (snd (snd (LingvaService_translate_alternatives e text src tgt (alt # rest) self errors tr)))"
  by (simp add: LingvaService_translate_alternatives_step
        LingvaService_translate_alternatives_trace split: sum.splits)

lemma first_request_translate_alternatives:
  "alt \<noteq> LINGVA_API_URL g \<Longrightarrow>
     prefix (tr @ [translate_url alt src tgt (quote text)])
       (snd (snd (translate_alternatives e text src tgt (alt # rest) g errors tr)))"
  by (simp add: translate_alternatives_step translate_alternatives_trace split: sum.splits)

lemma first_request_LingvaService_languages_alternatives:
  "alt \<noteq> primary_api_url self \<Longrightarrow>
     prefix (tr @ [languages_url alt])
       (snd (snd (LingvaService_languages_alternatives e (alt # rest) self errors tr)))"
  by (simp add: LingvaService_languages_alternatives_step
        LingvaService_languages_alternatives_trace split: sum.splits)

lemma first_request_languages_alternatives:
  "alt \<noteq> LINGVA_API_URL g \<Longrightarrow>
     prefix (tr @ [languages_url alt])
       (snd (snd (languages_alternatives e (alt # rest) g errors tr)))"
  by (simp add: languages_alternatives_step languages_alternatives_trace split: sum.splits)

lemma translate_text_all_failed_trace:
  assumes "translate_text e text src tgt g tr = (res, g', tr')"
    and "all_attempts_failed translate_attempt e tr tr'"
  shows "tr' = tr @ map (\<lambda>a. translate_url a src tgt (quote text))
                    (LINGVA_API_URL g # filter (\<lambda>a. a \<noteq> LINGVA_API_URL g) (LINGVA_API_ALTERNATIVES g))"
proof -
  let ?u = "translate_url (LINGVA_API_URL g) src tgt (quote text)"
  from translate_text_frame [OF assms(1)] have "prefix (tr @ [?u]) tr'"
    by simp
  from all_attempts_failed_first [OF assms(2) this]
  obtain m0 where "translate_attempt (http_get e (length tr) ?u) = Inl m0"
    by (auto simp: isl_def)
  with assms(1) have "translate_alternatives e text src tgt (LINGVA_API_ALTERNATIVES g) g
      [primary_error m0] (tr @ [?u]) = (res, g', tr')"
    by (simp add: translate_text_step)
  from translate_alternatives_all_failed [OF this all_attempts_failed_step [OF assms(2)]]
  obtain ams where ams: "map fst ams = filter (\<lambda>a. a \<noteq> LINGVA_API_URL g) (LINGVA_API_ALTERNATIVES g)"
    "tr' = (tr @ [?u]) @ map (\<lambda>(a, m). translate_url a src tgt (quote text)) ams"
    "\<forall>i<length ams. translate_attempt (http_get e (length (tr @ [?u]) + i)
         (translate_url (fst (ams ! i)) src tgt (quote text))) = Inl (snd (ams ! i))"
    "res = Inl (all_failed ([primary_error m0] @ map (\<lambda>(a, m). alternative_error a m) ams))"
    "g' = g"
    by blast
  have "map (\<lambda>(a, m). translate_url a src tgt (quote text)) ams
          = map (\<lambda>a. translate_url a src tgt (quote text)) (map fst ams)"
    by (simp add: case_prod_unfold)
  with ams show ?thesis by simp
qed

lemma api_alternatives_unchanged:
  "api_alternatives (fst (snd (LingvaService_translate_text e text src tgt self tr)))
     = api_alternatives self"
  "api_alternatives (fst (snd (LingvaService_get_available_languages e self tr)))
     = api_alternatives self"
  using LingvaService_translate_text_frame [of e "text" src tgt self tr]
    LingvaService_get_available_languages_frame [of e self tr]
  by (cases "LingvaService_translate_text e text src tgt self tr",
      cases "LingvaService_get_available_languages e self tr", simp)+

lemma LINGVA_API_ALTERNATIVES_unchanged:
  "LINGVA_API_ALTERNATIVES (fst (snd (translate_text e text src tgt g tr)))
     = LINGVA_API_ALTERNATIVES g"
  "LINGVA_API_ALTERNATIVES (fst (snd (get_available_languages e g tr)))
     = LINGVA_API_ALTERNATIVES g"
  using translate_text_frame [of e "text" src tgt g tr] get_available_languages_frame [of e g tr]
  by (cases "translate_text e text src tgt g tr",
      cases "get_available_languages e g tr", simp)+

lemma translate_text_failure_keeps_globals:
  "translate_text e text src tgt g tr = (Inl ex, g', tr') \<Longrightarrow> g' = g"
  by (auto simp: translate_text_step split: sum.splits
        dest: translate_alternatives_failure_keeps_state)

lemma translate_alternatives_depends_on_attempt_only:
  assumes "\<forall>n u. translate_attempt (http_get e n u) = translate_attempt (http_get e' n u)"
    and "now_iso e = now_iso e'"
  shows "translate_alternatives e text src tgt alts g errors tr
           = translate_alternatives e' text src tgt alts g errors tr"
proof (induction alts arbitrary: errors tr)
  case Nil
  show ?case by simp
next
  case (Cons a rest)
  show ?case
    by (simp add: translate_alternatives_step assms Cons.IH split: sum.splits)
qed

lemma translate_text_depends_on_attempt_only:
  assumes "\<forall>n u. translate_attempt (http_get e n u) = translate_attempt (http_get e' n u)"
    and "now_iso e = now_iso e'"
  shows "translate_text e text src tgt g tr = translate_text e' text src tgt g tr"
  by (simp add: translate_text_step assms
        translate_alternatives_depends_on_attempt_only [OF assms] split: sum.splits)

subsection \<open>A successful attempt on an alternative\<close>

lemma translate_url_inject:
  "translate_url a src tgt x = translate_url b src tgt x \<longleftrightarrow> a = b"
  by (simp add: translate_url_def)

lemma prefix_snoc_nth:
  "prefix (tr @ [u]) tr' \<Longrightarrow> tr' ! length tr = u"
  by (auto simp: prefix_def)

lemma translate_alternatives_successful_attempt:
  assumes "translate_alternatives e text src tgt alts g errors tr = (res, g', tr')"
    and "length tr \<le> i" and "i < length tr'"
    and "translate_attempt (http_get e i (tr' ! i)) = Inr t"
  shows "\<exists>k. k \<in> set alts \<and> tr' ! i = translate_url k src tgt (quote text)
           \<and> Suc i = length tr'
           \<and> res = Inr [(''original_text'', PStr text), (''translated_text'', t),
                        (''source_language'', PStr src), (''target_language'', PStr tgt),
                        (''timestamp'', PStr (now_iso e (Suc i))), (''api_used'', PStr k)]
           \<and> g' = g\<lparr>LINGVA_API_URL := k\<rparr>"
  using assms
proof (induction alts arbitrary: errors tr)
  case Nil
  then show ?case by simp
next
  case (Cons a rest)
  show ?case
  proof (cases "a = LINGVA_API_URL g")
    case True
    with Cons.prems(1)
    have "translate_alternatives e text src tgt rest g errors tr = (res, g', tr')"
      by (simp add: translate_alternatives_step)
    from Cons.IH [OF this Cons.prems(2-4)] show ?thesis by auto
  next
    case False
    let ?u = "translate_url a src tgt (quote text)"
    show ?thesis
    proof (cases "translate_attempt (http_get e (length tr) ?u)")
      case (Inl m)
      with False Cons.prems(1)
      have run: "translate_alternatives e text src tgt rest g (errors @ [alternative_error a m])
                   (tr @ [?u]) = (res, g', tr')"
        by (simp add: translate_alternatives_step)
      from translate_alternatives_frame [OF run] have "tr' ! length tr = ?u"
        by (simp add: prefix_snoc_nth)
      with Inl Cons.prems(4) have "i \<noteq> length tr"
        by auto
      with Cons.prems(2) have "length (tr @ [?u]) \<le> i"
        by simp
      from Cons.IH [OF run this Cons.prems(3,4)] show ?thesis by auto
    next
      case (Inr t')
      with False Cons.prems(1)
      have res: "res = Inr [(''original_text'', PStr text), (''translated_text'', t'),
                        (''source_language'', PStr src), (''target_language'', PStr tgt),
                        (''timestamp'', PStr (now_iso e (Suc (length tr)))), (''api_used'', PStr a)]"
        "g' = g\<lparr>LINGVA_API_URL := a\<rparr>" "tr' = tr @ [?u]"
        by (simp_all add: translate_alternatives_step)
      with Cons.prems(2,3) have i: "i = length tr"
        by simp
      with res(3) Cons.prems(4) Inr have "t' = t"
        by simp
      with res i show ?thesis by simp
    qed
  qed
qed

lemma LingvaService_translate_alternatives_successful_attempt:
  assumes "LingvaService_translate_alternatives e text src tgt alts self errors tr = (res, self', tr')"
    and "length tr \<le> i" and "i < length tr'"
    and "translate_attempt (http_get e i (tr' ! i)) = Inr t"
  shows "\<exists>k. k \<in> set alts \<and> tr' ! i = translate_url k src tgt (quote text)
           \<and> Suc i = length tr'
           \<and> res = Inr [(''original_text'', PStr text), (''translated_text'', t),
                        (''source_language'', PStr src), (''target_language'', PStr tgt),
                        (''timestamp'', PStr (now_iso e (Suc i))), (''api_used'', PStr k)]
           \<and> primary_api_url self' = k \<and> api_alternatives self' = api_alternatives self"
  using assms
proof (induction alts arbitrary: self errors tr)
  case Nil
  then show ?case by simp
next
  case (Cons a rest)
  show ?case
  proof (cases "a = primary_api_url self")
    case True
    with Cons.prems(1)
    have "LingvaService_translate_alternatives e text src tgt rest self errors tr = (res, self', tr')"
      by (simp add: LingvaService_translate_alternatives_step)
    from Cons.IH [OF this Cons.prems(2-4)] show ?thesis by auto
  next
    case False
    let ?u = "translate_url a src tgt (quote text)"
    show ?thesis
    proof (cases "translate_attempt (http_get e (length tr) ?u)")
      case (Inl m)
      define s1 where "s1 = (if isl (languages_attempt (http_get e (length tr) ?u))
                             then self else self\<lparr>primary_api_url := a\<rparr>)"
      have s1: "api_alternatives s1 = api_alternatives self"
        by (simp add: s1_def)
      from Inl False Cons.prems(1)
      have run: "LingvaService_translate_alternatives e text src tgt rest s1
                   (errors @ [alternative_error a m]) (tr @ [?u]) = (res, self', tr')"
        by (simp add: LingvaService_translate_alternatives_step s1_def)
      from LingvaService_translate_alternatives_frame [OF run] have "tr' ! length tr = ?u"
        by (simp add: prefix_snoc_nth)
      with Inl Cons.prems(4) have "i \<noteq> length tr"
        by auto
      with Cons.prems(2) have "length (tr @ [?u]) \<le> i"
        by simp
      from Cons.IH [OF run this Cons.prems(3,4)] s1 show ?thesis by auto
    next
      case (Inr t')
      with False Cons.prems(1)
      have res: "res = Inr [(''original_text'', PStr text), (''translated_text'', t'),
                        (''source_language'', PStr src), (''target_language'', PStr tgt),
                        (''timestamp'', PStr (now_iso e (Suc (length tr)))), (''api_used'', PStr a)]"
        "self' = self\<lparr>primary_api_url := a\<rparr>" "tr' = tr @ [?u]"
        by (simp_all add: LingvaService_translate_alternatives_step)
      with Cons.prems(2,3) have i: "i = length tr"
        by simp
      with res(3) Cons.prems(4) Inr have "t' = t"
        by simp
      with res i show ?thesis by simp
    qed
  qed
qed

lemma translate_text_successful_attempt:
  assumes "translate_text e text src tgt g tr = (res, g', tr')"
    and "length tr < i" and "i < length tr'"
    and "translate_attempt (http_get e i (tr' ! i)) = Inr t"
  shows "isl (translate_attempt (http_get e (length tr)
                (translate_url (LINGVA_API_URL g) src tgt (quote text))))
         \<and> (\<exists>k. k \<in> set (LINGVA_API_ALTERNATIVES g)
                \<and> tr' ! i = translate_url k src tgt (quote text)
                \<and> Suc i = length tr'
                \<and> res = Inr [(''original_text'', PStr text), (''translated_text'', t),
                        (''source_language'', PStr src), (''target_language'', PStr tgt),
                        (''timestamp'', PStr (now_iso e (Suc i))), (''api_used'', PStr k)]
                \<and> g' = g\<lparr>LINGVA_API_URL := k\<rparr>)"
proof (cases "translate_attempt (http_get e (length tr)
                (translate_url (LINGVA_API_URL g) src tgt (quote text)))")
  case (Inl m)
  let ?u = "translate_url (LINGVA_API_URL g) src tgt (quote text)"
  from Inl assms(1)
  have run: "translate_alternatives e text src tgt (LINGVA_API_ALTERNATIVES g) g
               [primary_error m] (tr @ [?u]) = (res, g', tr')"
    by (simp add: translate_text_step)
  from assms(2) have "length (tr @ [?u]) \<le> i"
    by simp
  from translate_alternatives_successful_attempt [OF run this assms(3,4)] Inl
  show ?thesis by simp
next
  case (Inr t0)
  with assms(1) have "length tr' = Suc (length tr)"
    by (auto simp: translate_text_step)
  with assms(2,3) show ?thesis by simp
qed

lemma LingvaService_translate_text_successful_attempt:
  assumes "LingvaService_translate_text e text src tgt self tr = (res, self', tr')"
    and "length tr < i" and "i < length tr'"
    and "translate_attempt (http_get e i (tr' ! i)) = Inr t"
  shows "isl (translate_attempt (http_get e (length tr)
                (translate_url (primary_api_url self) src tgt (quote text))))
         \<and> (\<exists>k. k \<in> set (api_alternatives self)
                \<and> tr' ! i = translate_url k src tgt (quote text)
                \<and> Suc i = length tr'
                \<and> res = Inr [(''original_text'', PStr text), (''translated_text'', t),
                        (''source_language'', PStr src), (''target_language'', PStr tgt),
                        (''timestamp'', PStr (now_iso e (Suc i))), (''api_used'', PStr k)]
                \<and> self' = self\<lparr>primary_api_url := k\<rparr>)"
proof (cases "translate_attempt (http_get e (length tr)
                (translate_url (primary_api_url self) src tgt (quote text)))")
  case (Inl m)
  let ?u = "translate_url (primary_api_url self) src tgt (quote text)"
  from Inl assms(1)
  have run: "LingvaService_translate_alternatives e text src tgt (api_alternatives self) self
               [primary_error m] (tr @ [?u]) = (res, self', tr')"
    by (simp add: LingvaService_translate_text_step)
  from assms(2) have "length (tr @ [?u]) \<le> i"
    by simp
  from LingvaService_translate_alternatives_successful_attempt [OF run this assms(3,4)]
  obtain k where k: "k \<in> set (api_alternatives self)"
    "tr' ! i = translate_url k src tgt (quote text)" "Suc i = length tr'"
    "res = Inr [(''original_text'', PStr text), (''translated_text'', t),
                (''source_language'', PStr src), (''target_language'', PStr tgt),
                (''timestamp'', PStr (now_iso e (Suc i))), (''api_used'', PStr k)]"
    "primary_api_url self' = k" "api_alternatives self' = api_alternatives self"
    by blast
  from k(5,6) have "self' = self\<lparr>primary_api_url := k\<rparr>"
    by simp
  with k Inl show ?thesis by auto
next
  case (Inr t0)
  with assms(1) have "length tr' = Suc (length tr)"
    by (auto simp: LingvaService_translate_text_step)
  with assms(2,3) show ?thesis by simp
qed

lemma all_attempts_failed_head:
  "all_attempts_failed attempt e tr (tr @ u # later) \<Longrightarrow>
     isl (attempt (http_get e (length tr) u))
     \<and> all_attempts_failed attempt e (tr @ [u]) ((tr @ [u]) @ later)"
proof
  assume h: "all_attempts_failed attempt e tr (tr @ u # later)"
  have "prefix (tr @ [u]) (tr @ u # later)"
    by (simp add: prefix_def)
  from all_attempts_failed_first [OF h this]
  show "isl (attempt (http_get e (length tr) u))" .
  from all_attempts_failed_step [OF h, of u]
  show "all_attempts_failed attempt e (tr @ [u]) ((tr @ [u]) @ later)"
    by simp
qed

lemma translate_alternatives_reaches:
  assumes "k \<noteq> LINGVA_API_URL g"
    and "all_attempts_failed translate_attempt e tr
           (tr @ map (\<lambda>a. translate_url a src tgt (quote text))
                   (filter (\<lambda>a. a \<noteq> LINGVA_API_URL g) pre))"
    and "translate_attempt (http_get e
            (length tr + length (filter (\<lambda>a. a \<noteq> LINGVA_API_URL g) pre))
            (translate_url k src tgt (quote text))) = Inr t"
  shows "translate_alternatives e text src tgt (pre @ k # rest) g errors tr
           = (Inr [(''original_text'', PStr text), (''translated_text'', t),
                   (''source_language'', PStr src), (''target_language'', PStr tgt),
                   (''timestamp'', PStr (now_iso e
                      (Suc (length tr + length (filter (\<lambda>a. a \<noteq> LINGVA_API_URL g) pre))))),
                   (''api_used'', PStr k)],
              g\<lparr>LINGVA_API_URL := k\<rparr>,
              tr @ map (\<lambda>a. translate_url a src tgt (quote text))
                     (filter (\<lambda>a. a \<noteq> LINGVA_API_URL g) pre)
                 @ [translate_url k src tgt (quote text)])"
  using assms(2,3)
proof (induction pre arbitrary: errors tr)
  case Nil
  with assms(1) show ?case
    by (simp add: translate_alternatives_step)
next
  case (Cons a pre)
  show ?case
  proof (cases "a = LINGVA_API_URL g")
    case True
    with Cons.prems Cons.IH [of tr errors] show ?thesis
      by (simp add: translate_alternatives_step)
  next
    case False
    let ?u = "translate_url a src tgt (quote text)"
    let ?more = "map (\<lambda>a. translate_url a src tgt (quote text))
                   (filter (\<lambda>a. a \<noteq> LINGVA_API_URL g) pre)"
    from False Cons.prems(1) have "all_attempts_failed translate_attempt e tr (tr @ ?u # ?more)"
      by simp
    from all_attempts_failed_head [OF this]
    obtain m where m: "translate_attempt (http_get e (length tr) ?u) = Inl m"
      and rest: "all_attempts_failed translate_attempt e (tr @ [?u]) ((tr @ [?u]) @ ?more)"
      by (auto simp: isl_def)
    from False Cons.prems(2)
    have "translate_attempt (http_get e
            (length (tr @ [?u]) + length (filter (\<lambda>a. a \<noteq> LINGVA_API_URL g) pre))
            (translate_url k src tgt (quote text))) = Inr t"
      by simp
    from Cons.IH [OF rest this, of "errors @ [alternative_error a m]"] False m
    show ?thesis
      by (simp add: translate_alternatives_step)
  qed
qed

lemma translate_text_reaches:
  assumes "LINGVA_API_ALTERNATIVES g = pre @ k # rest" and "k \<noteq> LINGVA_API_URL g"
    and "all_attempts_failed translate_attempt e tr
           (tr @ map (\<lambda>a. translate_url a src tgt (quote text))
                   (LINGVA_API_URL g # filter (\<lambda>a. a \<noteq> LINGVA_API_URL g) pre))"
    and "translate_attempt (http_get e
            (Suc (length tr) + length (filter (\<lambda>a. a \<noteq> LINGVA_API_URL g) pre))
            (translate_url k src tgt (quote text))) = Inr t"
  shows "translate_text e text src tgt g tr
           = (Inr [(''original_text'', PStr text), (''translated_text'', t),
                   (''source_language'', PStr src), (''target_language'', PStr tgt),
                   (''timestamp'', PStr (now_iso e
                      (Suc (Suc (length tr)
                         + length (filter (\<lambda>a. a \<noteq> LINGVA_API_URL g) pre))))),
                   (''api_used'', PStr k)],
              g\<lparr>LINGVA_API_URL := k\<rparr>,
              tr @ map (\<lambda>a. translate_url a src tgt (quote text))
                     (LINGVA_API_URL g # filter (\<lambda>a. a \<noteq> LINGVA_API_URL g) pre)
                 @ [translate_url k src tgt (quote text)])"
proof -
  let ?u = "translate_url (LINGVA_API_URL g) src tgt (quote text)"
  let ?more = "map (\<lambda>a. translate_url a src tgt (quote text))
                 (filter (\<lambda>a. a \<noteq> LINGVA_API_URL g) pre)"
  from assms(3) have "all_attempts_failed translate_attempt e tr (tr @ ?u # ?more)"
    by simp
  from all_attempts_failed_head [OF this]
  obtain m where m: "translate_attempt (http_get e (length tr) ?u) = Inl m"
    and rest: "all_attempts_failed translate_attempt e (tr @ [?u]) ((tr @ [?u]) @ ?more)"
    by (auto simp: isl_def)
  from assms(4)
  have "translate_attempt (http_get e
          (length (tr @ [?u]) + length (filter (\<lambda>a. a \<noteq> LINGVA_API_URL g) pre))
          (translate_url k src tgt (quote text))) = Inr t"
    by simp
  from translate_alternatives_reaches [OF assms(2) rest this, of rest "[primary_error m]"] m assms(1)
  show ?thesis
    by (simp add: translate_text_step)
qed

lemma LingvaService_translate_alternatives_reaches:
  assumes "k \<noteq> primary_api_url self"
    and "all_attempts_failed languages_attempt e tr
           (tr @ map (\<lambda>a. translate_url a src tgt (quote text))
                   (filter (\<lambda>a. a \<noteq> primary_api_url self) pre))"
    and "translate_attempt (http_get e
            (length tr + length (filter (\<lambda>a. a \<noteq> primary_api_url self) pre))
            (translate_url k src tgt (quote text))) = Inr t"
  shows "LingvaService_translate_alternatives e text src tgt (pre @ k # rest) self errors tr
           = (Inr [(''original_text'', PStr text), (''translated_text'', t),
                   (''source_language'', PStr src), (''target_language'', PStr tgt),
                   (''timestamp'', PStr (now_iso e
                      (Suc (length tr + length (filter (\<lambda>a. a \<noteq> primary_api_url self) pre))))),
                   (''api_used'', PStr k)],
              self\<lparr>primary_api_url := k\<rparr>,
              tr @ map (\<lambda>a. translate_url a src tgt (quote text))
                     (filter (\<lambda>a. a \<noteq> primary_api_url self) pre)
                 @ [translate_url k src tgt (quote text)])"
  using assms(2,3)
proof (induction pre arbitrary: errors tr)
  case Nil
  with assms(1) show ?case
    by (simp add: LingvaService_translate_alternatives_step)
next
  case (Cons a pre)
  show ?case
  proof (cases "a = primary_api_url self")
    case True
    with Cons.prems Cons.IH [of tr errors] show ?thesis
      by (simp add: LingvaService_translate_alternatives_step)
  next
    case False
    let ?u = "translate_url a src tgt (quote text)"
    let ?later = "map (\<lambda>a. translate_url a src tgt (quote text))
                   (filter (\<lambda>a. a \<noteq> primary_api_url self) pre)"
    from False Cons.prems(1) have "all_attempts_failed languages_attempt e tr (tr @ ?u # ?later)"
      by simp
    from all_attempts_failed_head [OF this]
    have undecoded: "isl (languages_attempt (http_get e (length tr) ?u))"
      and rest: "all_attempts_failed languages_attempt e (tr @ [?u]) ((tr @ [?u]) @ ?later)"
      by simp_all
    from undecoded obtain m where m: "translate_attempt (http_get e (length tr) ?u) = Inl m"
      by (auto simp: translate_attempt_def languages_attempt_def isl_def split: sum.splits)
    from False Cons.prems(2)
    have "translate_attempt (http_get e
            (length (tr @ [?u]) + length (filter (\<lambda>a. a \<noteq> primary_api_url self) pre))
            (translate_url k src tgt (quote text))) = Inr t"
      by simp
    from Cons.IH [OF rest this, of "errors @ [alternative_error a m]"] False m undecoded
    show ?thesis
      by (simp add: LingvaService_translate_alternatives_step)
  qed
qed

lemma LingvaService_translate_text_reaches:
  assumes "api_alternatives self = pre @ k # rest" and "k \<noteq> primary_api_url self"
    and "all_attempts_failed languages_attempt e tr
           (tr @ map (\<lambda>a. translate_url a src tgt (quote text))
                   (primary_api_url self # filter (\<lambda>a. a \<noteq> primary_api_url self) pre))"
    and "translate_attempt (http_get e
            (Suc (length tr) + length (filter (\<lambda>a. a \<noteq> primary_api_url self) pre))
            (translate_url k src tgt (quote text))) = Inr t"
  shows "LingvaService_translate_text e text src tgt self tr
           = (Inr [(''original_text'', PStr text), (''translated_text'', t),
                   (''source_language'', PStr src), (''target_language'', PStr tgt),
                   (''timestamp'', PStr (now_iso e
                      (Suc (Suc (length tr)
                         + length (filter (\<lambda>a. a \<noteq> primary_api_url self) pre))))),
                   (''api_used'', PStr k)],
              self\<lparr>primary_api_url := k\<rparr>,
              tr @ map (\<lambda>a. translate_url a src tgt (quote text))
                     (primary_api_url self # filter (\<lambda>a. a \<noteq> primary_api_url self) pre)
                 @ [translate_url k src tgt (quote text)])"
proof -
  let ?u = "translate_url (primary_api_url self) src tgt (quote text)"
  let ?later = "map (\<lambda>a. translate_url a src tgt (quote text))
                 (filter (\<lambda>a. a \<noteq> primary_api_url self) pre)"
  from assms(3) have "all_attempts_failed languages_attempt e tr (tr @ ?u # ?later)"
    by simp
  from all_attempts_failed_head [OF this]
  have undecoded: "isl (languages_attempt (http_get e (length tr) ?u))"
    and rest: "all_attempts_failed languages_attempt e (tr @ [?u]) ((tr @ [?u]) @ ?later)"
    by simp_all
  from undecoded obtain m where m: "translate_attempt (http_get e (length tr) ?u) = Inl m"
    by (auto simp: translate_attempt_def languages_attempt_def isl_def split: sum.splits)
  from assms(4)
  have "translate_attempt (http_get e
          (length (tr @ [?u]) + length (filter (\<lambda>a. a \<noteq> primary_api_url self) pre))
          (translate_url k src tgt (quote text))) = Inr t"
    by simp
  from LingvaService_translate_alternatives_reaches
         [OF assms(2) rest this, of rest "[primary_error m]"] m assms(1)
  show ?thesis
    by (simp add: LingvaService_translate_text_step)
qed

subsection \<open>A valid tool call reaches the upstream\<close>

lemma call_tool_valid_call_requests_primary:
  assumes "map_of kvs ''text'' = Some text" and "map_of kvs ''target_lang'' = Some target_lang"
  shows "prefix (tr @ [translate_url (LINGVA_API_URL g)
                        (case map_of kvs ''source_lang'' of Some s \<Rightarrow> s | None \<Rightarrow> ''auto'')
                        target_lang (quote text)])
           (snd (snd (call_tool e py_str ''translate_text'' (Dict kvs) g tr)))"
proof -
  let ?src = "case map_of kvs ''source_lang'' of Some s \<Rightarrow> s | None \<Rightarrow> ''auto''"
  obtain res g' tr' where run: "translate_text e text ?src target_lang g tr = (res, g', tr')"
    by (cases "translate_text e text ?src target_lang g tr") auto
  from translate_text_frame [OF run]
  have "prefix (tr @ [translate_url (LINGVA_API_URL g) ?src target_lang (quote text)]) tr'"
    by simp
  with assms run show ?thesis
    by (auto simp: call_tool_def split: sum.splits)
qed

lemma deepseek_call_tool_valid_call_queries:
  assumes "map_of kvs ''prompt'' = Some prompt"
  shows "snd (deepseek_call_tool d ''ask_deepseek'' (Dict kvs) tr)
           = tr @ [(case map_of kvs ''model'' of Some m \<Rightarrow> m | None \<Rightarrow> DEFAULT_MODEL, prompt)]"
  using assms
  by (auto simp: deepseek_call_tool_def query_deepseek_def split: sum.splits option.splits)

section \<open>Claims\<close>

lemmas example_simps =
  example_env_def example_translation_def example_service_def example_globals_def
  translate_url_def languages_url_def quote_def quote_byte_def always_safe_def
  hex_digit_def translate_attempt_def languages_attempt_def subscript_def
  key_error_message_def

lemmas run_simps =
  LingvaService_translate_text_step translate_text_step
  LingvaService_translate_alternatives_step translate_alternatives_step
  LingvaService_get_available_languages_step get_available_languages_step
  LingvaService_languages_alternatives_step languages_alternatives_step
  primary_error_def alternative_error_def all_failed_def

lemmas outage_simps =
  upstream_outage_def pussthecat_def default_api_url_def default_alternatives_def
  LingvaService_init_def module_globals_def
  translate_url_def languages_url_def quote_def quote_byte_def always_safe_def
  hex_digit_def translate_attempt_def languages_attempt_def subscript_def
  key_error_message_def

text \<open>
  C1. In both \<open>translate_text\<close> implementations, with the success of an attempt as
  hypothesis and not the success of the call:
  \<^item> at any state of the scan, an alternative \<open>k\<close> different from the current primary
    whose attempt succeeds ends the call there: the result carries \<open>api_used = k\<close>, the
    primary is \<open>k\<close>, and the request to \<open>k\<close> is the last one;
  \<^item> a call in which the attempts on the primary and on the alternatives listed before
    \<open>k\<close> fail (in the class method: fail before a body is decoded, since there a decoded
    body without the field moves the primary) and the attempt on \<open>k\<close> succeeds returns
    that result with the primary set to \<open>k\<close>;
  \<^item> whatever the earlier answers, if a request of a call after its first one went to
    alternative \<open>k\<close> and succeeded, then the attempt on the primary had failed, that
    request is the last of the call, the call returns the result with \<open>api_used = k\<close>,
    and the gateway is the old one with primary \<open>k\<close>;
  \<^item> any call, translate or list-languages, on a gateway whose primary is \<open>k\<close> sends
    its first request to \<open>k\<close>.
\<close>

theorem successful_alternative_becomes_primary:
  "(k \<noteq> primary_api_url scan_self
      \<and> translate_attempt
            (http_get e (length scan_tr) (translate_url k src tgt (quote text))) = Inr t
    \<longrightarrow> LingvaService_translate_alternatives e text src tgt (k # scan_rest) scan_self errors
          scan_tr
          = (Inr [(''original_text'', PStr text), (''translated_text'', t),
               (''source_language'', PStr src), (''target_language'', PStr tgt),
               (''timestamp'', PStr (now_iso e (Suc (length scan_tr)))), (''api_used'', PStr k)],
             scan_self\<lparr>primary_api_url := k\<rparr>,
             scan_tr @ [translate_url k src tgt (quote text)]))
   \<and> (api_alternatives self = pre @ k # rest \<and> k \<noteq> primary_api_url self
      \<and> all_attempts_failed languages_attempt e tr
           (tr @ map (\<lambda>a. translate_url a src tgt (quote text))
                   (primary_api_url self # filter (\<lambda>a. a \<noteq> primary_api_url self) pre))
      \<and> translate_attempt
            (http_get e (Suc (length tr) + length (filter (\<lambda>a. a \<noteq> primary_api_url self) pre))
               (translate_url k src tgt (quote text))) = Inr t
    \<longrightarrow> LingvaService_translate_text e text src tgt self tr
          = (Inr [(''original_text'', PStr text), (''translated_text'', t),
               (''source_language'', PStr src), (''target_language'', PStr tgt),
               (''timestamp'',
                PStr (now_iso e (Suc (Suc (length tr) + length (filter (\<lambda>a. a \<noteq> primary_api_url self) pre))))),
               (''api_used'', PStr k)],
             self\<lparr>primary_api_url := k\<rparr>,
             tr @ map (\<lambda>a. translate_url a src tgt (quote text))
                    (primary_api_url self # filter (\<lambda>a. a \<noteq> primary_api_url self) pre)
                @ [translate_url k src tgt (quote text)]))
   \<and> (LingvaService_translate_text e text src tgt self tr = (res, self', tr')
      \<and> length tr < i \<and> i < length tr'
      \<and> tr' ! i = translate_url k src tgt (quote text)
      \<and> translate_attempt (http_get e i (tr' ! i)) = Inr t
    \<longrightarrow> isl (translate_attempt (http_get e (length tr)
               (translate_url (primary_api_url self) src tgt (quote text))))
        \<and> k \<in> set (api_alternatives self) \<and> Suc i = length tr'
        \<and> res = Inr [(''original_text'', PStr text), (''translated_text'', t),
               (''source_language'', PStr src), (''target_language'', PStr tgt),
               (''timestamp'', PStr (now_iso e (Suc i))), (''api_used'', PStr k)]
        \<and> self' = self\<lparr>primary_api_url := k\<rparr>)
   \<and> (primary_api_url self2 = k
    \<longrightarrow> prefix (tr2 @ [translate_url k src2 tgt2 (quote text2)])
          (snd (snd (LingvaService_translate_text e2 text2 src2 tgt2 self2 tr2)))
        \<and> prefix (tr2 @ [languages_url k])
          (snd (snd (LingvaService_get_available_languages e2 self2 tr2))))
   \<and> (k \<noteq> LINGVA_API_URL scan_g
      \<and> translate_attempt
            (http_get e (length scan_tr') (translate_url k src tgt (quote text))) = Inr t
    \<longrightarrow> translate_alternatives e text src tgt (k # scan_rest') scan_g errors' scan_tr'
          = (Inr [(''original_text'', PStr text), (''translated_text'', t),
               (''source_language'', PStr src), (''target_language'', PStr tgt),
               (''timestamp'', PStr (now_iso e (Suc (length scan_tr')))), (''api_used'', PStr k)],
             scan_g\<lparr>LINGVA_API_URL := k\<rparr>, scan_tr' @ [translate_url k src tgt (quote text)]))
   \<and> (LINGVA_API_ALTERNATIVES g = pre' @ k # rest' \<and> k \<noteq> LINGVA_API_URL g
      \<and> all_attempts_failed translate_attempt e tr
           (tr @ map (\<lambda>a. translate_url a src tgt (quote text))
                   (LINGVA_API_URL g # filter (\<lambda>a. a \<noteq> LINGVA_API_URL g) pre'))
      \<and> translate_attempt
            (http_get e (Suc (length tr) + length (filter (\<lambda>a. a \<noteq> LINGVA_API_URL g) pre'))
               (translate_url k src tgt (quote text))) = Inr t
    \<longrightarrow> translate_text e text src tgt g tr
          = (Inr [(''original_text'', PStr text), (''translated_text'', t),
               (''source_language'', PStr src), (''target_language'', PStr tgt),
               (''timestamp'',
                PStr (now_iso e (Suc (Suc (length tr) + length (filter (\<lambda>a. a \<noteq> LINGVA_API_URL g) pre'))))),
               (''api_used'', PStr k)],
             g\<lparr>LINGVA_API_URL := k\<rparr>,
             tr @ map (\<lambda>a. translate_url a src tgt (quote text))
                    (LINGVA_API_URL g # filter (\<lambda>a. a \<noteq> LINGVA_API_URL g) pre')
                @ [translate_url k src tgt (quote text)]))
   \<and> (translate_text e text src tgt g tr = (res', g', tr'')
      \<and> length tr < i' \<and> i' < length tr''
      \<and> tr'' ! i' = translate_url k src tgt (quote text)
      \<and> translate_attempt (http_get e i' (tr'' ! i')) = Inr t
    \<longrightarrow> isl (translate_attempt (http_get e (length tr)
               (translate_url (LINGVA_API_URL g) src tgt (quote text))))
        \<and> k \<in> set (LINGVA_API_ALTERNATIVES g) \<and> Suc i' = length tr''
        \<and> res' = Inr [(''original_text'', PStr text), (''translated_text'', t),
               (''source_language'', PStr src), (''target_language'', PStr tgt),
               (''timestamp'', PStr (now_iso e (Suc i'))), (''api_used'', PStr k)]
        \<and> g' = g\<lparr>LINGVA_API_URL := k\<rparr>)
   \<and> (LINGVA_API_URL g2 = k
    \<longrightarrow> prefix (tr2 @ [translate_url k src2 tgt2 (quote text2)])
          (snd (snd (translate_text e2 text2 src2 tgt2 g2 tr2)))
        \<and> prefix (tr2 @ [languages_url k]) (snd (snd (get_available_languages e2 g2 tr2))))"
  apply (intro conjI)
  subgoal by (simp add: LingvaService_translate_alternatives_step)
  subgoal by (intro impI, elim conjE) (rule LingvaService_translate_text_reaches)
  subgoal
    using LingvaService_translate_text_successful_attempt
            [of e "text" src tgt self tr res self' tr' i t]
    by (auto simp: translate_url_inject)
  subgoal
    using first_request_LingvaService_translate_text [of tr2 self2 src2 tgt2 text2 e2]
      first_request_LingvaService_get_available_languages [of tr2 self2 e2]
    by auto
  subgoal by (simp add: translate_alternatives_step)
  subgoal by (intro impI, elim conjE) (rule translate_text_reaches)
  subgoal
    using translate_text_successful_attempt [of e "text" src tgt g tr res' g' tr'' i' t]
    by (auto simp: translate_url_inject)
  subgoal
    using first_request_translate_text [of tr2 g2 src2 tgt2 text2 e2]
      first_request_get_available_languages [of tr2 g2 e2]
    by auto
  done

theorem successful_alternative_becomes_primary_witness:
  "''B'' \<noteq> primary_api_url (example_service ''C'')
   \<and> translate_attempt
         (http_get (example_env (Transport_error ''down'') example_translation)
            (length [''C/en/zh/hi'', ''A/en/zh/hi''])
            (translate_url ''B'' ''en'' ''zh'' (quote ''hi''))) = Inr (PStr ''ni hao'')
   \<and> LingvaService_translate_alternatives
         (example_env (Transport_error ''down'') example_translation)
         ''hi'' ''en'' ''zh'' (''B'' # []) (example_service ''C'')
         [primary_error ''404 Not Found'', alternative_error ''A'' ''down'']
         [''C/en/zh/hi'', ''A/en/zh/hi'']
       = (Inr (example_result ''B''), example_service ''B'',
          [''C/en/zh/hi'', ''A/en/zh/hi'', ''B/en/zh/hi''])
   \<and> api_alternatives (example_service ''C'') = [''A''] @ ''B'' # []
   \<and> all_attempts_failed languages_attempt
         (example_env (Transport_error ''down'') example_translation)
         [] [''C/en/zh/hi'', ''A/en/zh/hi'']
   \<and> LingvaService_translate_text
         (example_env (Transport_error ''down'') example_translation)
         ''hi'' ''en'' ''zh'' (example_service ''C'') []
       = (Inr (example_result ''B''), example_service ''B'',
          [''C/en/zh/hi'', ''A/en/zh/hi'', ''B/en/zh/hi''])
   \<and> length ([] :: trace) < 2
   \<and> 2 < length [''C/en/zh/hi'', ''A/en/zh/hi'', ''B/en/zh/hi'']
   \<and> [''C/en/zh/hi'', ''A/en/zh/hi'', ''B/en/zh/hi''] ! 2
       = translate_url ''B'' ''en'' ''zh'' (quote ''hi'')
   \<and> translate_attempt
         (http_get (example_env (Transport_error ''down'') example_translation) 2
            ([''C/en/zh/hi'', ''A/en/zh/hi'', ''B/en/zh/hi''] ! 2)) = Inr (PStr ''ni hao'')
   \<and> primary_api_url (example_service ''B'') = ''B''
   \<and> snd (snd (LingvaService_translate_text
         (example_env (Status_error ''500'') (Status_error ''500''))
         ''bye'' ''fr'' ''de'' (example_service ''B'')
         [''C/en/zh/hi'', ''A/en/zh/hi'', ''B/en/zh/hi'']))
       = [''C/en/zh/hi'', ''A/en/zh/hi'', ''B/en/zh/hi'', ''B/fr/de/bye'', ''A/fr/de/bye'']
   \<and> snd (snd (LingvaService_get_available_languages
         (example_env (Status_error ''500'') (Status_error ''500''))
         (example_service ''B'') [''C/en/zh/hi'', ''A/en/zh/hi'', ''B/en/zh/hi'']))
       = [''C/en/zh/hi'', ''A/en/zh/hi'', ''B/en/zh/hi'', ''B/languages'', ''A/languages'']
   \<and> ''B'' \<noteq> LINGVA_API_URL (example_globals ''C'')
   \<and> translate_attempt
         (http_get (example_env (Transport_error ''down'') example_translation)
            (length [''C/en/zh/hi'', ''A/en/zh/hi''])
            (translate_url ''B'' ''en'' ''zh'' (quote ''hi''))) = Inr (PStr ''ni hao'')
   \<and> translate_alternatives
         (example_env (Transport_error ''down'') example_translation)
         ''hi'' ''en'' ''zh'' (''B'' # []) (example_globals ''C'')
         [primary_error ''404 Not Found'', alternative_error ''A'' ''down'']
         [''C/en/zh/hi'', ''A/en/zh/hi'']
       = (Inr (example_result ''B''), example_globals ''B'',
          [''C/en/zh/hi'', ''A/en/zh/hi'', ''B/en/zh/hi''])
   \<and> LINGVA_API_ALTERNATIVES (example_globals ''C'') = [''A''] @ ''B'' # []
   \<and> all_attempts_failed translate_attempt
         (example_env (Transport_error ''down'') example_translation)
         [] [''C/en/zh/hi'', ''A/en/zh/hi'']
   \<and> translate_text
         (example_env (Transport_error ''down'') example_translation)
         ''hi'' ''en'' ''zh'' (example_globals ''C'') []
       = (Inr (example_result ''B''), example_globals ''B'',
          [''C/en/zh/hi'', ''A/en/zh/hi'', ''B/en/zh/hi''])
   \<and> length ([] :: trace) < 2
   \<and> 2 < length [''C/en/zh/hi'', ''A/en/zh/hi'', ''B/en/zh/hi'']
   \<and> [''C/en/zh/hi'', ''A/en/zh/hi'', ''B/en/zh/hi''] ! 2
       = translate_url ''B'' ''en'' ''zh'' (quote ''hi'')
   \<and> translate_attempt
         (http_get (example_env (Transport_error ''down'') example_translation) 2
            ([''C/en/zh/hi'', ''A/en/zh/hi'', ''B/en/zh/hi''] ! 2)) = Inr (PStr ''ni hao'')
   \<and> LINGVA_API_URL (example_globals ''B'') = ''B''
   \<and> snd (snd (translate_text
         (example_env (Status_error ''500'') (Status_error ''500''))
         ''bye'' ''fr'' ''de'' (example_globals ''B'')
         [''C/en/zh/hi'', ''A/en/zh/hi'', ''B/en/zh/hi'']))
       = [''C/en/zh/hi'', ''A/en/zh/hi'', ''B/en/zh/hi'', ''B/fr/de/bye'', ''A/fr/de/bye'']
   \<and> snd (snd (get_available_languages
         (example_env (Status_error ''500'') (Status_error ''500''))
         (example_globals ''B'') [''C/en/zh/hi'', ''A/en/zh/hi'', ''B/en/zh/hi'']))
       = [''C/en/zh/hi'', ''A/en/zh/hi'', ''B/en/zh/hi'', ''B/languages'', ''A/languages'']"
  using successful_alternative_becomes_primary
    [of "''B''" "example_service ''C''"
        "example_env (Transport_error ''down'') example_translation"
        "[''C/en/zh/hi'', ''A/en/zh/hi'']" "''en''" "''zh''" "''hi''" "PStr ''ni hao''" "[]"
        "[primary_error ''404 Not Found'', alternative_error ''A'' ''down'']"
        "example_service ''C''" "[''A'']" "[]" "[]"
        "Inr (example_result ''B'')"
        "example_service ''B''" "[''C/en/zh/hi'', ''A/en/zh/hi'', ''B/en/zh/hi'']" "2"
        "example_service ''B''" "[''C/en/zh/hi'', ''A/en/zh/hi'', ''B/en/zh/hi'']"
        "''fr''" "''de''" "''bye''"
        "example_env (Status_error ''500'') (Status_error ''500'')"
        "example_globals ''C''" "[''C/en/zh/hi'', ''A/en/zh/hi'']" "[]"
        "[primary_error ''404 Not Found'', alternative_error ''A'' ''down'']"
        "example_globals ''C''" "[''A'']" "[]"
        "Inr (example_result ''B'')"
        "example_globals ''B''" "[''C/en/zh/hi'', ''A/en/zh/hi'', ''B/en/zh/hi'']" "2"
        "example_globals ''B''"]
  by (simp add: example_simps example_result_def run_simps all_attempts_failed_def
        atLeastLessThanSuc)

text \<open>
  C2. When every request of a \<open>translate_text\<close> call fails, the call raises
  \<open>RuntimeError\<close>; its message is the fixed prefix followed by the recorded errors joined
  by newlines: first the error of the primary, then one error for each request made to an
  alternative, in the order of the alternatives list (an alternative listed twice and
  requested twice has two errors). In \<open>translate_server.py\<close> the requested alternatives
  are exactly those different from the primary.
\<close>

theorem total_failure_raises_aggregated_error:
  "(LingvaService_translate_text e text src tgt self tr = (res, self', tr')
      \<and> all_attempts_failed translate_attempt e tr tr'
    \<longrightarrow> (\<exists>m0 ams. subseq (map fst ams) (api_alternatives self)
          \<and> tr' = tr @ translate_url (primary_api_url self) src tgt (quote text)
                    # map (\<lambda>(a, m). translate_url a src tgt (quote text)) ams
          \<and> translate_attempt (http_get e (length tr)
                (translate_url (primary_api_url self) src tgt (quote text))) = Inl m0
          \<and> (\<forall>i<length ams. translate_attempt (http_get e (Suc (length tr) + i)
                  (translate_url (fst (ams ! i)) src tgt (quote text))) = Inl (snd (ams ! i)))
          \<and> res = Inl (RuntimeError (''All Lingva API endpoints failed: ''
                  @ join_lines (primary_error m0 # map (\<lambda>(a, m). alternative_error a m) ams)))))
   \<and> (translate_text e text src tgt g tr = (res, g', tr')
      \<and> all_attempts_failed translate_attempt e tr tr'
    \<longrightarrow> (\<exists>m0 ams. map fst ams = filter (\<lambda>a. a \<noteq> LINGVA_API_URL g) (LINGVA_API_ALTERNATIVES g)
          \<and> tr' = tr @ translate_url (LINGVA_API_URL g) src tgt (quote text)
                    # map (\<lambda>(a, m). translate_url a src tgt (quote text)) ams
          \<and> translate_attempt (http_get e (length tr)
                (translate_url (LINGVA_API_URL g) src tgt (quote text))) = Inl m0
          \<and> (\<forall>i<length ams. translate_attempt (http_get e (Suc (length tr) + i)
                  (translate_url (fst (ams ! i)) src tgt (quote text))) = Inl (snd (ams ! i)))
          \<and> res = Inl (RuntimeError (''All Lingva API endpoints failed: ''
                  @ join_lines (primary_error m0 # map (\<lambda>(a, m). alternative_error a m) ams)))))"
proof (intro conjI impI)
  let ?u = "translate_url (primary_api_url self) src tgt (quote text)"
  assume h: "LingvaService_translate_text e text src tgt self tr = (res, self', tr')
      \<and> all_attempts_failed translate_attempt e tr tr'"
  then have run: "LingvaService_translate_text e text src tgt self tr = (res, self', tr')"
    and failed: "all_attempts_failed translate_attempt e tr tr'"
    by simp_all
  from LingvaService_translate_text_frame [OF run] have "prefix (tr @ [?u]) tr'"
    by simp
  from all_attempts_failed_first [OF failed this]
  obtain m0 where m0: "translate_attempt (http_get e (length tr) ?u) = Inl m0"
    by (auto simp: isl_def)
  with run have "LingvaService_translate_alternatives e text src tgt (api_alternatives self) self
      [primary_error m0] (tr @ [?u]) = (res, self', tr')"
    by (simp add: LingvaService_translate_text_step)
  from LingvaService_translate_alternatives_all_failed
         [OF this all_attempts_failed_step [OF failed]] m0
  show "\<exists>m0 ams. subseq (map fst ams) (api_alternatives self)
          \<and> tr' = tr @ ?u # map (\<lambda>(a, m). translate_url a src tgt (quote text)) ams
          \<and> translate_attempt (http_get e (length tr) ?u) = Inl m0
          \<and> (\<forall>i<length ams. translate_attempt (http_get e (Suc (length tr) + i)
                  (translate_url (fst (ams ! i)) src tgt (quote text))) = Inl (snd (ams ! i)))
          \<and> res = Inl (RuntimeError (''All Lingva API endpoints failed: ''
                  @ join_lines (primary_error m0 # map (\<lambda>(a, m). alternative_error a m) ams)))"
    by (auto simp: all_failed_def)
next
  let ?u = "translate_url (LINGVA_API_URL g) src tgt (quote text)"
  assume h: "translate_text e text src tgt g tr = (res, g', tr')
      \<and> all_attempts_failed translate_attempt e tr tr'"
  then have run: "translate_text e text src tgt g tr = (res, g', tr')"
    and failed: "all_attempts_failed translate_attempt e tr tr'"
    by simp_all
  from translate_text_frame [OF run] have "prefix (tr @ [?u]) tr'"
    by simp
  from all_attempts_failed_first [OF failed this]
  obtain m0 where m0: "translate_attempt (http_get e (length tr) ?u) = Inl m0"
    by (auto simp: isl_def)
  with run have "translate_alternatives e text src tgt (LINGVA_API_ALTERNATIVES g) g
      [primary_error m0] (tr @ [?u]) = (res, g', tr')"
    by (simp add: translate_text_step)
  from translate_alternatives_all_failed [OF this all_attempts_failed_step [OF failed]] m0
  show "\<exists>m0 ams. map fst ams = filter (\<lambda>a. a \<noteq> LINGVA_API_URL g) (LINGVA_API_ALTERNATIVES g)
          \<and> tr' = tr @ ?u # map (\<lambda>(a, m). translate_url a src tgt (quote text)) ams
          \<and> translate_attempt (http_get e (length tr) ?u) = Inl m0
          \<and> (\<forall>i<length ams. translate_attempt (http_get e (Suc (length tr) + i)
                  (translate_url (fst (ams ! i)) src tgt (quote text))) = Inl (snd (ams ! i)))
          \<and> res = Inl (RuntimeError (''All Lingva API endpoints failed: ''
                  @ join_lines (primary_error m0 # map (\<lambda>(a, m). alternative_error a m) ams)))"
    by (auto simp: all_failed_def)
qed

theorem total_failure_raises_aggregated_error_witness:
  "LingvaService_translate_text (example_env (Status_error ''500'') (Transport_error ''down''))
       ''hi'' ''en'' ''zh'' \<lparr>primary_api_url = ''A'', api_alternatives = [''A'', ''B'', ''B'']\<rparr> []
     = (Inl (RuntimeError (''All Lingva API endpoints failed: Primary API error: 500''
               @ newline # ''Alternative API B error: down''
               @ newline # ''Alternative API B error: down'')),
        \<lparr>primary_api_url = ''A'', api_alternatives = [''A'', ''B'', ''B'']\<rparr>,
        [''A/en/zh/hi'', ''B/en/zh/hi'', ''B/en/zh/hi''])
   \<and> all_attempts_failed translate_attempt
        (example_env (Status_error ''500'') (Transport_error ''down''))
        [] [''A/en/zh/hi'', ''B/en/zh/hi'', ''B/en/zh/hi'']
   \<and> translate_text (example_env (Status_error ''500'') (Transport_error ''down''))
       ''hi'' ''en'' ''zh'' \<lparr>LINGVA_API_URL = ''A'', LINGVA_API_ALTERNATIVES = [''A'', ''B'', ''B'']\<rparr> []
     = (Inl (RuntimeError (''All Lingva API endpoints failed: Primary API error: 500''
               @ newline # ''Alternative API B error: down''
               @ newline # ''Alternative API B error: down'')),
        \<lparr>LINGVA_API_URL = ''A'', LINGVA_API_ALTERNATIVES = [''A'', ''B'', ''B'']\<rparr>,
        [''A/en/zh/hi'', ''B/en/zh/hi'', ''B/en/zh/hi''])"
  using total_failure_raises_aggregated_error
    [of "example_env (Status_error ''500'') (Transport_error ''down'')"
        "''hi''" "''en''" "''zh''" "\<lparr>primary_api_url = ''A'', api_alternatives = [''A'', ''B'', ''B'']\<rparr>" "[]"
        "Inl (RuntimeError (''All Lingva API endpoints failed: Primary API error: 500''
               @ newline # ''Alternative API B error: down''
               @ newline # ''Alternative API B error: down''))"
        "\<lparr>primary_api_url = ''A'', api_alternatives = [''A'', ''B'', ''B'']\<rparr>"
        "[''A/en/zh/hi'', ''B/en/zh/hi'', ''B/en/zh/hi'']"
        "\<lparr>LINGVA_API_URL = ''A'', LINGVA_API_ALTERNATIVES = [''A'', ''B'', ''B'']\<rparr>"
        "\<lparr>LINGVA_API_URL = ''A'', LINGVA_API_ALTERNATIVES = [''A'', ''B'', ''B'']\<rparr>"]
  by (simp add: example_simps run_simps all_attempts_failed_def)

text \<open>
  C3. \<open>get_available_languages\<close> has no exception in its result: it always returns a
  value. When every request of the call fails, the value is the built-in default list of
  the implementation (three entries in \<open>LingvaService\<close>, nine in \<open>translate_server.py\<close>);
  both lists begin with the entry of code \<open>auto\<close> and contain the entries of codes \<open>en\<close>
  and \<open>zh\<close>.
\<close>

theorem languages_total_failure_returns_default:
  "(LingvaService_get_available_languages e self tr = ((languages, errors), self', tr')
      \<and> all_attempts_failed languages_attempt e tr tr'
    \<longrightarrow> languages = LingvaService_default_languages)
   \<and> (get_available_languages e g tr = ((languages', errors'), g', tr'')
      \<and> all_attempts_failed languages_attempt e tr tr''
    \<longrightarrow> languages' = default_languages)
   \<and> (\<exists>rest. LingvaService_default_languages
          = PList (PDict [(''code'', PStr ''auto''), (''name'', PStr ''Detect Language'')] # rest)
        \<and> PDict [(''code'', PStr ''en''), (''name'', PStr ''English'')] \<in> set rest
        \<and> PDict [(''code'', PStr ''zh''), (''name'', PStr ''Chinese'')] \<in> set rest
        \<and> length rest = 2)
   \<and> (\<exists>rest. default_languages
          = PList (PDict [(''code'', PStr ''auto''), (''name'', PStr ''Detect Language'')] # rest)
        \<and> PDict [(''code'', PStr ''en''), (''name'', PStr ''English'')] \<in> set rest
        \<and> PDict [(''code'', PStr ''zh''), (''name'', PStr ''Chinese'')] \<in> set rest
        \<and> length rest = 8)"
proof (intro conjI impI)
  let ?u = "languages_url (primary_api_url self)"
  assume "LingvaService_get_available_languages e self tr = ((languages, errors), self', tr')
      \<and> all_attempts_failed languages_attempt e tr tr'"
  then have run: "LingvaService_get_available_languages e self tr = ((languages, errors), self', tr')"
    and failed: "all_attempts_failed languages_attempt e tr tr'"
    by simp_all
  from LingvaService_get_available_languages_frame [OF run] have "prefix (tr @ [?u]) tr'"
    by simp
  from all_attempts_failed_first [OF failed this]
  obtain m0 where "languages_attempt (http_get e (length tr) ?u) = Inl m0"
    by (auto simp: isl_def)
  with run have "LingvaService_languages_alternatives e (api_alternatives self) self
      [primary_error m0] (tr @ [?u]) = ((languages, errors), self', tr')"
    by (simp add: LingvaService_get_available_languages_step)
  from LingvaService_languages_alternatives_all_failed
         [OF this all_attempts_failed_step [OF failed]]
  show "languages = LingvaService_default_languages"
    by simp
next
  let ?u = "languages_url (LINGVA_API_URL g)"
  assume "get_available_languages e g tr = ((languages', errors'), g', tr'')
      \<and> all_attempts_failed languages_attempt e tr tr''"
  then have run: "get_available_languages e g tr = ((languages', errors'), g', tr'')"
    and failed: "all_attempts_failed languages_attempt e tr tr''"
    by simp_all
  from get_available_languages_frame [OF run] have "prefix (tr @ [?u]) tr''"
    by simp
  from all_attempts_failed_first [OF failed this]
  obtain m0 where "languages_attempt (http_get e (length tr) ?u) = Inl m0"
    by (auto simp: isl_def)
  with run have "languages_alternatives e (LINGVA_API_ALTERNATIVES g) g
      [primary_error m0] (tr @ [?u]) = ((languages', errors'), g', tr'')"
    by (simp add: get_available_languages_step)
  from languages_alternatives_all_failed [OF this all_attempts_failed_step [OF failed]]
  show "languages' = default_languages"
    by simp
next
  show "\<exists>rest. LingvaService_default_languages
          = PList (PDict [(''code'', PStr ''auto''), (''name'', PStr ''Detect Language'')] # rest)
        \<and> PDict [(''code'', PStr ''en''), (''name'', PStr ''English'')] \<in> set rest
        \<and> PDict [(''code'', PStr ''zh''), (''name'', PStr ''Chinese'')] \<in> set rest
        \<and> length rest = 2"
    by (simp add: LingvaService_default_languages_def)
next
  show "\<exists>rest. default_languages
          = PList (PDict [(''code'', PStr ''auto''), (''name'', PStr ''Detect Language'')] # rest)
        \<and> PDict [(''code'', PStr ''en''), (''name'', PStr ''English'')] \<in> set rest
        \<and> PDict [(''code'', PStr ''zh''), (''name'', PStr ''Chinese'')] \<in> set rest
        \<and> length rest = 8"
    by (simp add: default_languages_def)
qed

theorem languages_total_failure_returns_default_witness:
  "LingvaService_get_available_languages
       (example_env (Status_error ''500'') (Body_not_json ''Expecting value''))
       (example_service ''A'') []
     = ((LingvaService_default_languages,
         [''Primary API error: 500'', ''Alternative API B error: Expecting value'']),
        (example_service ''B''),
        [''A/languages'', ''B/languages''])
   \<and> all_attempts_failed languages_attempt
        (example_env (Status_error ''500'') (Body_not_json ''Expecting value''))
        [] [''A/languages'', ''B/languages'']
   \<and> get_available_languages
       (example_env (Status_error ''500'') (Body_not_json ''Expecting value''))
       (example_globals ''A'') []
     = ((default_languages,
         [''Primary API error: 500'', ''Alternative API B error: Expecting value'']),
        (example_globals ''B''),
        [''A/languages'', ''B/languages''])"
  using languages_total_failure_returns_default
    [of "example_env (Status_error ''500'') (Body_not_json ''Expecting value'')"
        "(example_service ''A'')" "[]"
        "LingvaService_default_languages"
        "[''Primary API error: 500'', ''Alternative API B error: Expecting value'']"
        "(example_service ''B'')"
        "[''A/languages'', ''B/languages'']"
        "(example_globals ''A'')"
        "default_languages"
        "[''Primary API error: 500'', ''Alternative API B error: Expecting value'']"
        "(example_globals ''B'')"
        "[''A/languages'', ''B/languages'']"]
  by (simp add: example_simps run_simps all_attempts_failed_def)

text \<open>
  C4. In \<open>LingvaService.translate_text\<close> an answer without the \<open>translation\<close> field is
  not handled like a transport or HTTP failure. \<open>LingvaService\<close> is configured with
  \<open>lingva.pussthecat.org\<close> as primary (the environment variable) and the default
  alternatives; only \<open>lingva.garudalinux.org\<close> answers. When that alternative answers 200
  with a JSON object without \<open>translation\<close>, \<open>LingvaService.translate_text\<close> has already
  made it the primary when the \<open>KeyError\<close> is caught: the old primary, listed next, is no
  longer skipped and is requested a second time, and the gateway keeps the failed
  endpoint as primary. When the same alternative fails with an HTTP error, the old
  primary is skipped and the gateway is unchanged. \<open>translate_text\<close> of
  \<open>translate_server.py\<close> makes the same four requests and leaves the globals unchanged in
  both cases.
\<close>

theorem missing_translation_field_not_treated_as_transport_failure:
  "snd (LingvaService_translate_text
          (upstream_outage (Body_json (PDict [(''error'', PStr ''Not Found'')])))
          ''hi'' ''en'' ''zh'' (LingvaService_init (Some pussthecat) None None) [])
     = (\<lparr>primary_api_url = default_api_url, api_alternatives = default_alternatives\<rparr>,
        map (\<lambda>api_url. translate_url api_url ''en'' ''zh'' ''hi'')
          [pussthecat, default_api_url, pussthecat,
           ''https://translate.plausibility.cloud/api/v1'',
           ''https://translate.dr460nf1r3.org/api/v1''])
   \<and> snd (LingvaService_translate_text
          (upstream_outage (Status_error ''Server error 502 Bad Gateway''))
          ''hi'' ''en'' ''zh'' (LingvaService_init (Some pussthecat) None None) [])
     = (\<lparr>primary_api_url = pussthecat, api_alternatives = default_alternatives\<rparr>,
        map (\<lambda>api_url. translate_url api_url ''en'' ''zh'' ''hi'')
          [pussthecat, default_api_url,
           ''https://translate.plausibility.cloud/api/v1'',
           ''https://translate.dr460nf1r3.org/api/v1''])
   \<and> snd (translate_text
          (upstream_outage (Body_json (PDict [(''error'', PStr ''Not Found'')])))
          ''hi'' ''en'' ''zh'' (module_globals (Some pussthecat)) [])
     = (\<lparr>LINGVA_API_URL = pussthecat, LINGVA_API_ALTERNATIVES = default_alternatives\<rparr>,
        map (\<lambda>api_url. translate_url api_url ''en'' ''zh'' ''hi'')
          [pussthecat, default_api_url,
           ''https://translate.plausibility.cloud/api/v1'',
           ''https://translate.dr460nf1r3.org/api/v1''])
   \<and> snd (translate_text
          (upstream_outage (Status_error ''Server error 502 Bad Gateway''))
          ''hi'' ''en'' ''zh'' (module_globals (Some pussthecat)) [])
     = (\<lparr>LINGVA_API_URL = pussthecat, LINGVA_API_ALTERNATIVES = default_alternatives\<rparr>,
        map (\<lambda>api_url. translate_url api_url ''en'' ''zh'' ''hi'')
          [pussthecat, default_api_url,
           ''https://translate.plausibility.cloud/api/v1'',
           ''https://translate.dr460nf1r3.org/api/v1''])"
  by (simp add: outage_simps run_simps)

text \<open>
  C5. In each of the four loops over the alternatives, an alternative equal to the primary
  as it is at that iteration is passed over: the scan goes on with the same trace and the
  same errors, so no request is made and no error recorded. An alternative different from
  the current primary is requested, whatever the trace already holds. When every request
  of a \<open>translate_text\<close> call of \<open>translate_server.py\<close> fails, the requests made are the
  primary and then every entry of the alternatives list different from it, in order,
  repeated entries included.
\<close>

theorem alternative_equal_to_primary_is_skipped:
  "LingvaService_translate_alternatives e text src tgt (primary_api_url self # rest) self errors tr
     = LingvaService_translate_alternatives e text src tgt rest self errors tr
   \<and> LingvaService_languages_alternatives e (primary_api_url self # rest) self errors tr
     = LingvaService_languages_alternatives e rest self errors tr
   \<and> translate_alternatives e text src tgt (LINGVA_API_URL g # rest) g errors tr
     = translate_alternatives e text src tgt rest g errors tr
   \<and> languages_alternatives e (LINGVA_API_URL g # rest) g errors tr
     = languages_alternatives e rest g errors tr
   \<and> (alt \<noteq> primary_api_url self \<longrightarrow>
      prefix (tr @ [translate_url alt src tgt (quote text)])
        (snd (snd (LingvaService_translate_alternatives e text src tgt (alt # rest) self errors tr)))
      \<and> prefix (tr @ [languages_url alt])
        (snd (snd (LingvaService_languages_alternatives e (alt # rest) self errors tr))))
   \<and> (alt \<noteq> LINGVA_API_URL g \<longrightarrow>
      prefix (tr @ [translate_url alt src tgt (quote text)])
        (snd (snd (translate_alternatives e text src tgt (alt # rest) g errors tr)))
      \<and> prefix (tr @ [languages_url alt])
        (snd (snd (languages_alternatives e (alt # rest) g errors tr))))
   \<and> (translate_text e text src tgt g tr = (res, g', tr')
        \<and> all_attempts_failed translate_attempt e tr tr'
      \<longrightarrow> tr' = tr @ map (\<lambda>a. translate_url a src tgt (quote text))
             (LINGVA_API_URL g # filter (\<lambda>a. a \<noteq> LINGVA_API_URL g) (LINGVA_API_ALTERNATIVES g)))"
  apply (intro conjI impI)
  subgoal by (simp add: LingvaService_translate_alternatives_step)
  subgoal by (simp add: LingvaService_languages_alternatives_step)
  subgoal by (simp add: translate_alternatives_step)
  subgoal by (simp add: languages_alternatives_step)
  subgoal by (rule first_request_LingvaService_translate_alternatives)
  subgoal by (rule first_request_LingvaService_languages_alternatives)
  subgoal by (rule first_request_translate_alternatives)
  subgoal by (rule first_request_languages_alternatives)
  subgoal by (erule conjE) (rule translate_text_all_failed_trace)
  done

theorem alternative_equal_to_primary_is_skipped_witness:
  "''B'' \<noteq> primary_api_url \<lparr>primary_api_url = ''A'', api_alternatives = [''A'', ''B'', ''B'']\<rparr>
   \<and> snd (snd (LingvaService_translate_alternatives
         (example_env (Status_error ''500'') (Transport_error ''down'')) ''hi'' ''en'' ''zh''
         (''B'' # [''A'', ''B''])
         \<lparr>primary_api_url = ''A'', api_alternatives = [''A'', ''B'', ''B'']\<rparr>
         [''Primary API error: 500''] [''A/en/zh/hi'', ''B/en/zh/hi'']))
       = [''A/en/zh/hi'', ''B/en/zh/hi'', ''B/en/zh/hi'', ''B/en/zh/hi'']
   \<and> ''B'' \<noteq> LINGVA_API_URL \<lparr>LINGVA_API_URL = ''A'', LINGVA_API_ALTERNATIVES = [''A'', ''B'', ''B'']\<rparr>
   \<and> snd (snd (languages_alternatives
         (example_env (Status_error ''500'') (Transport_error ''down''))
         (''B'' # [''A'', ''B''])
         \<lparr>LINGVA_API_URL = ''A'', LINGVA_API_ALTERNATIVES = [''A'', ''B'', ''B'']\<rparr>
         [''Primary API error: 500''] [''A/en/zh/hi'', ''B/en/zh/hi'']))
       = [''A/en/zh/hi'', ''B/en/zh/hi'', ''B/languages'', ''B/languages'']
   \<and> translate_text (example_env (Status_error ''500'') (Transport_error ''down''))
         ''hi'' ''en'' ''zh''
         \<lparr>LINGVA_API_URL = ''A'', LINGVA_API_ALTERNATIVES = [''A'', ''B'', ''B'']\<rparr>
         [''A/en/zh/hi'', ''B/en/zh/hi'']
       = (Inl (RuntimeError (''All Lingva API endpoints failed: Primary API error: 500''
               @ newline # ''Alternative API B error: down''
               @ newline # ''Alternative API B error: down'')),
          \<lparr>LINGVA_API_URL = ''A'', LINGVA_API_ALTERNATIVES = [''A'', ''B'', ''B'']\<rparr>,
          [''A/en/zh/hi'', ''B/en/zh/hi'', ''A/en/zh/hi'', ''B/en/zh/hi'', ''B/en/zh/hi''])
   \<and> all_attempts_failed translate_attempt
         (example_env (Status_error ''500'') (Transport_error ''down''))
         [''A/en/zh/hi'', ''B/en/zh/hi'']
         [''A/en/zh/hi'', ''B/en/zh/hi'', ''A/en/zh/hi'', ''B/en/zh/hi'', ''B/en/zh/hi'']"
  using alternative_equal_to_primary_is_skipped
    [of "example_env (Status_error ''500'') (Transport_error ''down'')" "''hi''" "''en''" "''zh''"
        "\<lparr>primary_api_url = ''A'', api_alternatives = [''A'', ''B'', ''B'']\<rparr>"
        "[''A'', ''B'']" "[''Primary API error: 500'']" "[''A/en/zh/hi'', ''B/en/zh/hi'']"
        "\<lparr>LINGVA_API_URL = ''A'', LINGVA_API_ALTERNATIVES = [''A'', ''B'', ''B'']\<rparr>"
        "''B''"
        "Inl (RuntimeError (''All Lingva API endpoints failed: Primary API error: 500''
               @ newline # ''Alternative API B error: down''
               @ newline # ''Alternative API B error: down''))"
        "\<lparr>LINGVA_API_URL = ''A'', LINGVA_API_ALTERNATIVES = [''A'', ''B'', ''B'']\<rparr>"
        "[''A/en/zh/hi'', ''B/en/zh/hi'', ''A/en/zh/hi'', ''B/en/zh/hi'', ''B/en/zh/hi'']"]
  by (simp add: example_simps run_simps all_attempts_failed_def)

text \<open>
  C6. A \<open>translate_text\<close> call whose attempt on the primary succeeds returns after that
  one request, leaves the gateway as it was, and its result has no \<open>api_used\<close> key. A call
  that succeeds after the primary failed ended with a successful request to an
  alternative \<open>k\<close> and its result has \<open>api_used\<close> equal to \<open>k\<close>. No translate or
  list-languages call changes the alternatives list; the gateway has no other field than
  the primary and that list.
\<close>

theorem primary_success_leaves_gateway_unchanged:
  "(\<not> isl (translate_attempt (http_get e (length tr)
             (translate_url (primary_api_url self) src tgt (quote text))))
    \<longrightarrow> (\<exists>r. LingvaService_translate_text e text src tgt self tr
               = (Inr r, self, tr @ [translate_url (primary_api_url self) src tgt (quote text)])
             \<and> map_of r ''api_used'' = None))
   \<and> (isl (translate_attempt (http_get e' (length tr)
             (translate_url (primary_api_url self) src tgt (quote text))))
      \<and> LingvaService_translate_text e' text src tgt self tr = (Inr r', self', tr')
    \<longrightarrow> (\<exists>k tr0. k \<in> set (api_alternatives self)
            \<and> tr' = tr0 @ [translate_url k src tgt (quote text)]
            \<and> \<not> isl (translate_attempt (http_get e' (length tr0)
                  (translate_url k src tgt (quote text))))
            \<and> map_of r' ''api_used'' = Some (PStr k)))
   \<and> (\<not> isl (translate_attempt (http_get e (length tr)
             (translate_url (LINGVA_API_URL g) src tgt (quote text))))
    \<longrightarrow> (\<exists>r. translate_text e text src tgt g tr
               = (Inr r, g, tr @ [translate_url (LINGVA_API_URL g) src tgt (quote text)])
             \<and> map_of r ''api_used'' = None))
   \<and> (isl (translate_attempt (http_get e' (length tr)
             (translate_url (LINGVA_API_URL g) src tgt (quote text))))
      \<and> translate_text e' text src tgt g tr = (Inr r', g', tr')
    \<longrightarrow> (\<exists>k tr0. k \<in> set (LINGVA_API_ALTERNATIVES g) \<and> k \<noteq> LINGVA_API_URL g
            \<and> tr' = tr0 @ [translate_url k src tgt (quote text)]
            \<and> \<not> isl (translate_attempt (http_get e' (length tr0)
                  (translate_url k src tgt (quote text))))
            \<and> map_of r' ''api_used'' = Some (PStr k)))
   \<and> api_alternatives (fst (snd (LingvaService_translate_text e text src tgt self tr)))
       = api_alternatives self
   \<and> api_alternatives (fst (snd (LingvaService_get_available_languages e self tr)))
       = api_alternatives self
   \<and> LINGVA_API_ALTERNATIVES (fst (snd (translate_text e text src tgt g tr)))
       = LINGVA_API_ALTERNATIVES g
   \<and> LINGVA_API_ALTERNATIVES (fst (snd (get_available_languages e g tr)))
       = LINGVA_API_ALTERNATIVES g"
proof (intro conjI impI)
  assume "\<not> isl (translate_attempt (http_get e (length tr)
             (translate_url (primary_api_url self) src tgt (quote text))))"
  then show "\<exists>r. LingvaService_translate_text e text src tgt self tr
               = (Inr r, self, tr @ [translate_url (primary_api_url self) src tgt (quote text)])
             \<and> map_of r ''api_used'' = None"
    by (auto simp: LingvaService_translate_text_step isl_def split: sum.splits)
next
  assume "isl (translate_attempt (http_get e' (length tr)
             (translate_url (primary_api_url self) src tgt (quote text))))
      \<and> LingvaService_translate_text e' text src tgt self tr = (Inr r', self', tr')"
  then show "\<exists>k tr0. k \<in> set (api_alternatives self)
            \<and> tr' = tr0 @ [translate_url k src tgt (quote text)]
            \<and> \<not> isl (translate_attempt (http_get e' (length tr0)
                  (translate_url k src tgt (quote text))))
            \<and> map_of r' ''api_used'' = Some (PStr k)"
    using LingvaService_translate_text_failover_success [of e' "text" src tgt self tr r' self' tr']
    by blast
next
  assume "\<not> isl (translate_attempt (http_get e (length tr)
             (translate_url (LINGVA_API_URL g) src tgt (quote text))))"
  then show "\<exists>r. translate_text e text src tgt g tr
               = (Inr r, g, tr @ [translate_url (LINGVA_API_URL g) src tgt (quote text)])
             \<and> map_of r ''api_used'' = None"
    by (auto simp: translate_text_step isl_def split: sum.splits)
next
  assume h: "isl (translate_attempt (http_get e' (length tr)
             (translate_url (LINGVA_API_URL g) src tgt (quote text))))
      \<and> translate_text e' text src tgt g tr = (Inr r', g', tr')"
  then obtain m where
    "translate_attempt (http_get e' (length tr)
        (translate_url (LINGVA_API_URL g) src tgt (quote text))) = Inl m"
    by (auto simp: isl_def)
  with h have "translate_alternatives e' text src tgt (LINGVA_API_ALTERNATIVES g)
      g [primary_error m] (tr @ [translate_url (LINGVA_API_URL g) src tgt (quote text)])
      = (Inr r', g', tr')"
    by (simp add: translate_text_step)
  from translate_alternatives_success [OF this]
  show "\<exists>k tr0. k \<in> set (LINGVA_API_ALTERNATIVES g) \<and> k \<noteq> LINGVA_API_URL g
            \<and> tr' = tr0 @ [translate_url k src tgt (quote text)]
            \<and> \<not> isl (translate_attempt (http_get e' (length tr0)
                  (translate_url k src tgt (quote text))))
            \<and> map_of r' ''api_used'' = Some (PStr k)"
    by fastforce
qed (simp_all add: api_alternatives_unchanged LINGVA_API_ALTERNATIVES_unchanged)

theorem primary_success_leaves_gateway_unchanged_witness:
  "\<not> isl (translate_attempt
        (http_get (example_env example_translation (Transport_error ''down''))
           (length ([] :: trace))
           (translate_url (primary_api_url (example_service ''A'')) ''en'' ''zh'' (quote ''hi''))))
   \<and> LingvaService_translate_text (example_env example_translation (Transport_error ''down''))
         ''hi'' ''en'' ''zh'' (example_service ''A'') []
       = (Inr [(''original_text'', PStr ''hi''), (''translated_text'', PStr ''ni hao''),
               (''source_language'', PStr ''en''), (''target_language'', PStr ''zh''),
               (''timestamp'', PStr ''2024-05-01T12:00:00'')],
          example_service ''A'', [''A/en/zh/hi''])
   \<and> isl (translate_attempt
        (http_get (example_env (Status_error ''500'') example_translation)
           (length ([] :: trace))
           (translate_url (primary_api_url (example_service ''A'')) ''en'' ''zh'' (quote ''hi''))))
   \<and> LingvaService_translate_text (example_env (Status_error ''500'') example_translation)
         ''hi'' ''en'' ''zh'' (example_service ''A'') []
       = (Inr [(''original_text'', PStr ''hi''), (''translated_text'', PStr ''ni hao''),
               (''source_language'', PStr ''en''), (''target_language'', PStr ''zh''),
               (''timestamp'', PStr ''2024-05-01T12:00:00''), (''api_used'', PStr ''B'')],
          example_service ''B'', [''A/en/zh/hi'', ''B/en/zh/hi''])
   \<and> \<not> isl (translate_attempt
        (http_get (example_env example_translation (Transport_error ''down''))
           (length ([] :: trace))
           (translate_url (LINGVA_API_URL (example_globals ''A'')) ''en'' ''zh'' (quote ''hi''))))
   \<and> translate_text (example_env example_translation (Transport_error ''down''))
         ''hi'' ''en'' ''zh'' (example_globals ''A'') []
       = (Inr [(''original_text'', PStr ''hi''), (''translated_text'', PStr ''ni hao''),
               (''source_language'', PStr ''en''), (''target_language'', PStr ''zh''),
               (''timestamp'', PStr ''2024-05-01T12:00:00'')],
          example_globals ''A'', [''A/en/zh/hi''])
   \<and> isl (translate_attempt
        (http_get (example_env (Status_error ''500'') example_translation)
           (length ([] :: trace))
           (translate_url (LINGVA_API_URL (example_globals ''A'')) ''en'' ''zh'' (quote ''hi''))))
   \<and> translate_text (example_env (Status_error ''500'') example_translation)
         ''hi'' ''en'' ''zh'' (example_globals ''A'') []
       = (Inr [(''original_text'', PStr ''hi''), (''translated_text'', PStr ''ni hao''),
               (''source_language'', PStr ''en''), (''target_language'', PStr ''zh''),
               (''timestamp'', PStr ''2024-05-01T12:00:00''), (''api_used'', PStr ''B'')],
          example_globals ''B'', [''A/en/zh/hi'', ''B/en/zh/hi''])"
  using primary_success_leaves_gateway_unchanged
    [of "example_env example_translation (Transport_error ''down'')" "[]"
        "example_service ''A''" "''en''" "''zh''" "''hi''"
        "example_env (Status_error ''500'') example_translation"
        "[(''original_text'', PStr ''hi''), (''translated_text'', PStr ''ni hao''),
          (''source_language'', PStr ''en''), (''target_language'', PStr ''zh''),
          (''timestamp'', PStr ''2024-05-01T12:00:00''), (''api_used'', PStr ''B'')]"
        "example_service ''B''" "[''A/en/zh/hi'', ''B/en/zh/hi'']"
        "example_globals ''A''" "example_globals ''B''"]
  by (simp add: example_simps run_simps)

text \<open>
  C7. For every text and pair of language tags, if the primary endpoint answers with a JSON
  object that has a \<open>translation\<close> field, the result of \<open>translate_text\<close> (the method of
  \<open>LingvaService\<close> and the function of \<open>translate_server.py\<close>) holds the input text as
  \<open>original_text\<close>, the input tags as \<open>source_language\<close> and \<open>target_language\<close>, the value
  of the response's \<open>translation\<close> field as \<open>translated_text\<close>, and a \<open>timestamp\<close>.
\<close>

theorem primary_success_echoes_input:
  "(http_get e (length tr) (translate_url (primary_api_url self) source_lang target_lang (quote text))
       = Body_json (PDict kvs) \<and> map_of kvs ''translation'' = Some translation
    \<longrightarrow> (\<exists>result. fst (LingvaService_translate_text e text source_lang target_lang self tr) = Inr result
          \<and> map_of result ''original_text'' = Some (PStr text)
          \<and> map_of result ''source_language'' = Some (PStr source_lang)
          \<and> map_of result ''target_language'' = Some (PStr target_lang)
          \<and> map_of result ''translated_text'' = Some translation
          \<and> map_of result ''timestamp'' = Some (PStr (now_iso e (Suc (length tr))))))
   \<and> (http_get e (length tr) (translate_url (LINGVA_API_URL g) source_lang target_lang (quote text))
       = Body_json (PDict kvs) \<and> map_of kvs ''translation'' = Some translation
    \<longrightarrow> (\<exists>result. fst (translate_text e text source_lang target_lang g tr) = Inr result
          \<and> map_of result ''original_text'' = Some (PStr text)
          \<and> map_of result ''source_language'' = Some (PStr source_lang)
          \<and> map_of result ''target_language'' = Some (PStr target_lang)
          \<and> map_of result ''translated_text'' = Some translation
          \<and> map_of result ''timestamp'' = Some (PStr (now_iso e (Suc (length tr))))))"
  by (simp add: LingvaService_translate_text_step translate_text_step translate_attempt_def
        subscript_def)

theorem primary_success_echoes_input_witness:
  "http_get (example_env example_translation (Transport_error ''down''))
       (length ([] :: trace))
       (translate_url (primary_api_url (example_service ''A''))
          ''en'' ''zh'' (quote ''hello you''))
     = example_translation
   \<and> map_of [(''translation'', PStr ''ni hao'')] ''translation'' = Some (PStr ''ni hao'')
   \<and> fst (LingvaService_translate_text
            (example_env example_translation (Transport_error ''down''))
            ''hello you'' ''en'' ''zh'' (example_service ''A'') [])
       = Inr [(''original_text'', PStr ''hello you''), (''translated_text'', PStr ''ni hao''),
              (''source_language'', PStr ''en''), (''target_language'', PStr ''zh''),
              (''timestamp'', PStr ''2024-05-01T12:00:00'')]
   \<and> http_get (example_env example_translation (Transport_error ''down''))
       (length ([] :: trace))
       (translate_url (LINGVA_API_URL (example_globals ''A''))
          ''en'' ''zh'' (quote ''hello you''))
     = example_translation
   \<and> fst (translate_text
            (example_env example_translation (Transport_error ''down''))
            ''hello you'' ''en'' ''zh'' (example_globals ''A'') [])
       = Inr [(''original_text'', PStr ''hello you''), (''translated_text'', PStr ''ni hao''),
              (''source_language'', PStr ''en''), (''target_language'', PStr ''zh''),
              (''timestamp'', PStr ''2024-05-01T12:00:00'')]"
  using primary_success_echoes_input
    [of "example_env example_translation (Transport_error ''down'')"
        "[]" "(example_service ''A'')" "''en''" "''zh''"
        "''hello you''" "[(''translation'', PStr ''ni hao'')]" "PStr ''ni hao''"
        "(example_globals ''A'')"]
  by (simp add: example_simps LingvaService_translate_text_step translate_text_step)

text \<open>
  C8. \<open>TimeService.get_current_time\<close> with a timezone that is not in \<open>pytz.all_timezones\<close>
  logs a warning and goes on with \<open>UTC\<close>: when the conversion and the two \<open>strftime\<close>
  calls succeed, it returns a result whose \<open>timezone\<close> is \<open>UTC\<close>, not the argument, and
  its outcome is that of the call with \<open>UTC\<close> (after the warning). For any timezone, an
  exception of the conversion or of a \<open>strftime\<close> call ends the call with \<open>RuntimeError\<close>.
\<close>

theorem unknown_timezone_falls_back_to_UTC:
  "(timezone \<notin> set (all_timezones t)
      \<and> astimezone t (utc_now t) ''UTC'' = Inr local_now
      \<and> strftime t local_now format_str = Inr formatted_time
      \<and> strftime t (utc_now t) format_str = Inr utc_time
    \<longrightarrow> get_current_time t timezone format_str
          = (Inr [(''current_time'', PStr formatted_time),
                  (''timezone'', PStr ''UTC''),
                  (''format'', PStr format_str),
                  (''utc_time'', PStr utc_time),
                  (''timestamp'', PFloat (timestamp_repr t (utc_now t)))],
             [(WARNING, ''Invalid timezone: '' @ timezone @ '', using UTC instead'')]))
   \<and> (timezone \<notin> set (all_timezones t) \<and> ''UTC'' \<in> set (all_timezones t)
    \<longrightarrow> fst (get_current_time t timezone format_str) = fst (get_current_time t ''UTC'' format_str)
        \<and> snd (get_current_time t timezone format_str)
            = (WARNING, ''Invalid timezone: '' @ timezone @ '', using UTC instead'')
              # snd (get_current_time t ''UTC'' format_str))
   \<and> (astimezone t (utc_now t) (if zone \<in> set (all_timezones t) then zone else ''UTC'') = Inl m
        \<or> (\<exists>local_now'.
              astimezone t (utc_now t) (if zone \<in> set (all_timezones t) then zone else ''UTC'')
                = Inr local_now'
              \<and> (strftime t local_now' format_str' = Inl m
                   \<or> (\<exists>formatted_time'. strftime t local_now' format_str' = Inr formatted_time'
                         \<and> strftime t (utc_now t) format_str' = Inl m)))
    \<longrightarrow> fst (get_current_time t zone format_str')
          = Inl (RuntimeError (''Error getting current time: '' @ m)))"
  by (auto simp: get_current_time_def time_failure_def split: sum.splits)

theorem unknown_timezone_falls_back_to_UTC_witness:
  "''Mars/Olympus'' \<notin> set (all_timezones example_time_env)
   \<and> astimezone example_time_env (utc_now example_time_env) ''UTC'' = Inr ''UTC''
   \<and> strftime example_time_env ''UTC'' ''%Y'' = Inr ''2024-05-01 12:00:00 UTC''
   \<and> strftime example_time_env (utc_now example_time_env) ''%Y'' = Inr ''2024-05-01 12:00:00 UTC''
   \<and> get_current_time example_time_env ''Mars/Olympus'' ''%Y''
       = (Inr [(''current_time'', PStr ''2024-05-01 12:00:00 UTC''),
               (''timezone'', PStr ''UTC''),
               (''format'', PStr ''%Y''),
               (''utc_time'', PStr ''2024-05-01 12:00:00 UTC''),
               (''timestamp'', PFloat ''1714564800.0'')],
          [(WARNING, ''Invalid timezone: Mars/Olympus, using UTC instead'')])
   \<and> ''UTC'' \<in> set (all_timezones example_time_env)
   \<and> get_current_time example_time_env ''UTC'' ''%Y''
       = (Inr [(''current_time'', PStr ''2024-05-01 12:00:00 UTC''),
               (''timezone'', PStr ''UTC''),
               (''format'', PStr ''%Y''),
               (''utc_time'', PStr ''2024-05-01 12:00:00 UTC''),
               (''timestamp'', PFloat ''1714564800.0'')], [])
   \<and> astimezone example_time_env (utc_now example_time_env)
         (if ''Asia/Shanghai'' \<in> set (all_timezones example_time_env)
          then ''Asia/Shanghai'' else ''UTC'') = Inr ''Asia/Shanghai''
   \<and> strftime example_time_env ''Asia/Shanghai'' [CHR 0x00] = Inl ''embedded null character''
   \<and> get_current_time example_time_env ''Asia/Shanghai'' [CHR 0x00]
       = (Inl (RuntimeError ''Error getting current time: embedded null character''),
          [(ERROR, ''Error getting current time: embedded null character'')])"
  using unknown_timezone_falls_back_to_UTC
    [of "''Mars/Olympus''" example_time_env "''UTC''" "''%Y''" "''2024-05-01 12:00:00 UTC''"
        "''2024-05-01 12:00:00 UTC''" "''Asia/Shanghai''" "''embedded null character''"
        "[CHR 0x00]"]
  by (simp add: example_time_env_def get_current_time_def time_failure_def)

text \<open>
  C9. \<open>call_tool\<close> of \<open>translate_server.py\<close> and of \<open>server_test.py\<close> raises
  \<open>ValueError\<close> for a tool name that is not the name of the one tool \<open>list_tools\<close>
  returns, and for arguments that are not a dict or lack a key the tool's schema
  requires. In both cases the trace of upstream requests and the globals are as before
  the call: nothing was sent.
\<close>

theorem invalid_call_rejected_without_request:
  "(tool_name \<notin> set (map name list_tools)
    \<longrightarrow> call_tool e py_str tool_name args g tr
          = (Inl (ValueError (''Unknown tool: '' @ tool_name)), g, tr))
   \<and> (args' = Not_a_dict
        \<or> (\<exists>kvs k. args' = Dict kvs \<and> k \<in> set (required (hd list_tools)) \<and> map_of kvs k = None)
    \<longrightarrow> call_tool e py_str ''translate_text'' args' g tr
          = (Inl invalid_translate_arguments, g, tr))
   \<and> (deepseek_tool_name \<notin> set (map name deepseek_list_tools)
    \<longrightarrow> deepseek_call_tool d deepseek_tool_name args dtr
          = (Inl (ValueError (''Unknown tool: '' @ deepseek_tool_name)), dtr))
   \<and> (args'' = Not_a_dict
        \<or> (\<exists>kvs k. args'' = Dict kvs \<and> k \<in> set (required (hd deepseek_list_tools))
              \<and> map_of kvs k = None)
    \<longrightarrow> deepseek_call_tool d ''ask_deepseek'' args'' dtr = (Inl invalid_deepseek_arguments, dtr))"
  by (auto simp: call_tool_def deepseek_call_tool_def list_tools_def deepseek_list_tools_def
        invalid_translate_arguments_def invalid_deepseek_arguments_def
        split: option.splits)

theorem invalid_call_rejected_without_request_witness:
  "''ask_deepseek'' \<notin> set (map name list_tools)
   \<and> call_tool (example_env (Status_error ''500'') (Status_error ''500'')) (\<lambda>v. ''?'')
         ''ask_deepseek'' (Dict [(''text'', ''hi''), (''target_lang'', ''zh'')])
         (example_globals ''A'') [''A/languages'']
       = (Inl (ValueError ''Unknown tool: ask_deepseek''),
          (example_globals ''A''), [''A/languages''])
   \<and> ''target_lang'' \<in> set (required (hd list_tools))
   \<and> map_of [(''text'', ''hi''), (''source_lang'', ''en'')] ''target_lang'' = None
   \<and> call_tool (example_env (Status_error ''500'') (Status_error ''500'')) (\<lambda>v. ''?'')
         ''translate_text'' (Dict [(''text'', ''hi''), (''source_lang'', ''en'')])
         (example_globals ''A'') [''A/languages'']
       = (Inl invalid_translate_arguments,
          (example_globals ''A''), [''A/languages''])
   \<and> ''translate_text'' \<notin> set (map name deepseek_list_tools)
   \<and> deepseek_call_tool example_deepseek_env ''translate_text''
         (Dict [(''text'', ''hi''), (''target_lang'', ''zh'')]) [(''deepseek-chat'', ''hello'')]
       = (Inl (ValueError ''Unknown tool: translate_text''), [(''deepseek-chat'', ''hello'')])
   \<and> ''prompt'' \<in> set (required (hd deepseek_list_tools))
   \<and> map_of [(''model'', ''deepseek-chat'')] ''prompt'' = None
   \<and> deepseek_call_tool example_deepseek_env ''ask_deepseek''
         (Dict [(''model'', ''deepseek-chat'')]) [(''deepseek-chat'', ''hello'')]
       = (Inl invalid_deepseek_arguments, [(''deepseek-chat'', ''hello'')])"
  using invalid_call_rejected_without_request
    [of "''ask_deepseek''" "example_env (Status_error ''500'') (Status_error ''500'')" "\<lambda>v. ''?''"
        "Dict [(''text'', ''hi''), (''target_lang'', ''zh'')]"
        "(example_globals ''A'')" "[''A/languages'']"
        "Dict [(''text'', ''hi''), (''source_lang'', ''en'')]"
        "''translate_text''" example_deepseek_env "[(''deepseek-chat'', ''hello'')]"
        "Dict [(''model'', ''deepseek-chat'')]"]
  by (simp add: call_tool_def deepseek_call_tool_def list_tools_def deepseek_list_tools_def
        invalid_translate_arguments_def invalid_deepseek_arguments_def)

text \<open>
  C10. Calls that end in total failure and change the primary, on the configuration and
  the outage of C4. \<open>LingvaService.translate_text\<close> raises the aggregated error with
  the primary moved to the alternative that answered without a \<open>translation\<close> field; both
  \<open>get_available_languages\<close> return their default list with the primary moved to the
  alternative that answered 200 with a body that is not JSON.
\<close>

theorem total_failure_promotes_failed_alternative:
  "LingvaService_translate_text
       (upstream_outage (Body_json (PDict [(''error'', PStr ''Not Found'')])))
       ''hi'' ''en'' ''zh'' (LingvaService_init (Some pussthecat) None None) []
     = (Inl (all_failed
               [primary_error ''All connection attempts failed'',
                alternative_error default_api_url (key_error_message ''translation''),
                alternative_error pussthecat ''All connection attempts failed'',
                alternative_error ''https://translate.plausibility.cloud/api/v1''
                  ''All connection attempts failed'',
                alternative_error ''https://translate.dr460nf1r3.org/api/v1''
                  ''All connection attempts failed'']),
        \<lparr>primary_api_url = default_api_url, api_alternatives = default_alternatives\<rparr>,
        map (\<lambda>api_url. translate_url api_url ''en'' ''zh'' ''hi'')
          [pussthecat, default_api_url, pussthecat,
           ''https://translate.plausibility.cloud/api/v1'',
           ''https://translate.dr460nf1r3.org/api/v1''])
   \<and> primary_api_url (LingvaService_init (Some pussthecat) None None) = pussthecat
   \<and> pussthecat \<noteq> default_api_url
   \<and> LingvaService_get_available_languages
       (upstream_outage (Body_not_json ''Expecting value: line 1 column 1 (char 0)''))
       (LingvaService_init (Some pussthecat) None None) []
     = ((LingvaService_default_languages,
         [primary_error ''All connection attempts failed'',
          alternative_error default_api_url ''Expecting value: line 1 column 1 (char 0)'',
          alternative_error pussthecat ''All connection attempts failed'',
          alternative_error ''https://translate.plausibility.cloud/api/v1''
            ''All connection attempts failed'',
          alternative_error ''https://translate.dr460nf1r3.org/api/v1''
            ''All connection attempts failed'']),
        \<lparr>primary_api_url = default_api_url, api_alternatives = default_alternatives\<rparr>,
        map languages_url
          [pussthecat, default_api_url, pussthecat,
           ''https://translate.plausibility.cloud/api/v1'',
           ''https://translate.dr460nf1r3.org/api/v1''])
   \<and> get_available_languages
       (upstream_outage (Body_not_json ''Expecting value: line 1 column 1 (char 0)''))
       (module_globals (Some pussthecat)) []
     = ((default_languages,
         [primary_error ''All connection attempts failed'',
          alternative_error default_api_url ''Expecting value: line 1 column 1 (char 0)'',
          alternative_error pussthecat ''All connection attempts failed'',
          alternative_error ''https://translate.plausibility.cloud/api/v1''
            ''All connection attempts failed'',
          alternative_error ''https://translate.dr460nf1r3.org/api/v1''
            ''All connection attempts failed'']),
        \<lparr>LINGVA_API_URL = default_api_url, LINGVA_API_ALTERNATIVES = default_alternatives\<rparr>,
        map languages_url
          [pussthecat, default_api_url, pussthecat,
           ''https://translate.plausibility.cloud/api/v1'',
           ''https://translate.dr460nf1r3.org/api/v1''])
   \<and> LINGVA_API_URL (module_globals (Some pussthecat)) = pussthecat"
  by (simp add: outage_simps run_simps apostrophe_def)

end
